theory Spec2Isabelle
  imports Main
begin

section \<open>Error values\<close>

text \<open>
  The handlers of \<^verbatim>\<open>pkg/modules/libreoffice/routes.go\<close> return Go \<^verbatim>\<open>error\<close> values.
  The model keeps the shape the source gives them: a sentinel, a fresh
  \<^verbatim>\<open>errors.New(msg)\<close>, a \<^verbatim>\<open>fmt.Errorf("prefix: %w", err)\<close> wrapper, and the pair
  built by \<^verbatim>\<open>api.WrapError(err, api.NewSentinelHTTPError(status, msg))\<close>.

  The source names the page-range sentinel \<^verbatim>\<open>ErrMalformedPageRanges\<close> in
  \<^verbatim>\<open>createPNG\<close> and \<^verbatim>\<open>uno.ErrMalformedPageRanges\<close> in the two handlers. Its
  declaration lies in package \<^verbatim>\<open>uno\<close>, outside this file; the model has the one
  sentinel for both names.
\<close>

datatype SentinelHTTPError = NewSentinelHTTPError (status: nat) (message: string)

datatype error =
    ErrMalformedPageRanges
  | ErrPDFFormatNotAvailable
  | errors_New string
  | Errorf string error
  | WrapError error SentinelHTTPError

definition StatusBadRequest :: nat where
  "StatusBadRequest = 400"

text \<open>
  \<^verbatim>\<open>errors.Is(err, target)\<close>: \<^verbatim>\<open>err\<close> is the target, or wraps (through \<^verbatim>\<open>%w\<close>) an
  error that is.
\<close>

fun errors_Is :: "error \<Rightarrow> error \<Rightarrow> bool" where
  "errors_Is (Errorf prefix e) target = (Errorf prefix e = target \<or> errors_Is e target)"
| "errors_Is e target = (e = target)"

section \<open>Conversion options\<close>

text \<open>
  Modelled from the spec: the struct \<^verbatim>\<open>uno.Options\<close> is declared outside this file.
  The spec's data model gives the page selection as a textual range or a single
  explicit page index; \<^verbatim>\<open>convertRoute\<close> stores the form's string there and
  \<^verbatim>\<open>generateThumnailRoute\<close> the number \<^verbatim>\<open>1\<close>.
\<close>

datatype page_ranges = Textual string | PageIndex int

record Options =
  Landscape :: bool
  PageRanges :: page_ranges
  PDFformat :: string

fun digits :: "nat \<Rightarrow> string" where
  "digits n = (if n < 10 then [''0123456789'' ! n]
               else digits (n div 10) @ [''0123456789'' ! (n mod 10)])"

declare digits.simps [simp del]

text \<open>\<^verbatim>\<open>fmt.Sprintf("%d", n)\<close> on a Go \<^verbatim>\<open>int\<close>.\<close>

definition Sprintf_d :: "int \<Rightarrow> string" where
  "Sprintf_d n = (if n < 0 then CHR ''-'' # digits (nat (- n)) else digits (nat n))"

text \<open>
  \<^verbatim>\<open>fmt.Sprintf("%s", options.PageRanges)\<close>: the text itself, and for a number the
  \<^verbatim>\<open>fmt\<close> package's rendering of an integer under the verb \<^verbatim>\<open>%s\<close>.
\<close>

fun Sprintf_s :: "page_ranges \<Rightarrow> string" where
  "Sprintf_s (Textual s) = s"
| "Sprintf_s (PageIndex n) = ''%!s(int='' @ Sprintf_d n @ '')''"

section \<open>The world of a handler\<close>

text \<open>
  Every call that leaves this file (the request context, the logger, the UNO API, the
  PDF engine, the listener, the command runner) is recorded as an event, with its
  arguments and its result, in the order the handler makes it. \<^verbatim>\<open>EvCreatePNG\<close> marks
  the entry of \<^verbatim>\<open>createPNG\<close> with the arguments it was called with.
\<close>

datatype listener = NewListener | ModListener

datatype event =
    EvWarn string
  | EvGeneratePath string string
  | EvPDF string string Options "error option"
  | EvMerge "string list" string "error option"
  | EvConvert string string string "error option"
  | EvAddOutputPaths "string list" "error option"
  | EvCreatePNG string string Options
  | EvStart "error option"
  | EvStop "error option"
  | EvLock "error option"
  | EvGoUnlock
  | EvPort listener int
  | EvCommandContext string "string list" "error option"
  | EvExec string "string list" int "error option"
  | EvLogDebug Options
  | EvLogError string error

text \<open>
  The collaborators are parameters of the model. Each one sees the events so far, so
  that its answer may depend on everything that happened before the call.
\<close>

record env =
  FormatPDFA1a :: string
  ctx_GeneratePath :: "event list \<Rightarrow> string \<Rightarrow> string"
  ctx_AddOutputPaths :: "event list \<Rightarrow> string list \<Rightarrow> error option"
  unoAPI_PDF :: "event list \<Rightarrow> string \<Rightarrow> string \<Rightarrow> Options \<Rightarrow> error option"
  engine_Merge :: "event list \<Rightarrow> string list \<Rightarrow> string \<Rightarrow> error option"
  engine_Convert :: "event list \<Rightarrow> string \<Rightarrow> string \<Rightarrow> string \<Rightarrow> error option"
  libreOfficeRestartThreshold :: int
  unoconvBinPath :: string
  listener_start :: "event list \<Rightarrow> error option"
  listener_stop :: "event list \<Rightarrow> error option"
  listener_lock :: "event list \<Rightarrow> error option"
  listener_port :: "listener \<Rightarrow> event list \<Rightarrow> int"
  logger_Check_debug :: bool
  gotenberg_CommandContext :: "event list \<Rightarrow> string \<Rightarrow> string list \<Rightarrow> error option"
  cmd_Exec :: "event list \<Rightarrow> string \<Rightarrow> string list \<Rightarrow> int \<times> error option"

text \<open>
  The state the code of this file changes: the trace of events, the package-level
  counter \<^verbatim>\<open>activeInstancesCount\<close>, and the three variables that
  \<^verbatim>\<open>generateThumnailRoute\<close> reads and assigns without declaring them
  (\<^verbatim>\<open>nativePDFA1aFormat\<close>, \<^verbatim>\<open>nativePDFformat\<close>, \<^verbatim>\<open>PDFformat\<close>), taken as
  package-level variables.
\<close>

record world =
  trace :: "event list"
  activeInstancesCount :: int
  pkg_nativePDFA1aFormat :: bool
  pkg_nativePDFformat :: string
  pkg_PDFformat :: string

definition emit :: "event \<Rightarrow> world \<Rightarrow> world" where
  "emit ev w = w\<lparr>trace := trace w @ [ev]\<rparr>"

text \<open>
  The values bound by \<^verbatim>\<open>ctx.FormData()...Validate()\<close>, named by their form fields.
  A handler receives \<^verbatim>\<open>Inl err\<close> when validation fails.
\<close>

record FormData =
  inputPaths :: "string list"
  landscape :: bool
  nativePageRanges :: string
  nativePdfA1aFormat :: bool
  nativePdfFormat :: string
  pdfFormat :: string
  merge :: bool

section \<open>convertRoute\<close>

definition deprecated_warning :: string where
  "deprecated_warning =
     [CHR 0x27] @
     ''nativePdfA1aFormat' is deprecated; prefer 'nativePdfFormat' or 'pdfFormat' form fields instead''"

definition malformed_page_ranges_error :: "string \<Rightarrow> error \<Rightarrow> Options \<Rightarrow> error" where
  "malformed_page_ranges_error prefix e options =
     WrapError (Errorf prefix e)
       (NewSentinelHTTPError StatusBadRequest
          (''Malformed page ranges '' @ [CHR 0x27] @ Sprintf_s (PageRanges options) @
           [CHR 0x27] @ '' (nativePageRanges)''))"

text \<open>The loop of lines 84 to 105: one \<^verbatim>\<open>unoAPI.PDF\<close> call per input, in order.\<close>

fun convert_each :: "env \<Rightarrow> Options \<Rightarrow> string list \<Rightarrow> nat \<Rightarrow> string list \<Rightarrow> world
    \<Rightarrow> (error + string list) \<times> world" where
  "convert_each env options [] i outputPaths w = (Inr outputPaths, w)"
| "convert_each env options (inputPath # rest) i outputPaths w =
     (let p = ctx_GeneratePath env (trace w) ''.pdf'';
          w1 = emit (EvGeneratePath ''.pdf'' p) w;
          outputPaths1 = outputPaths[i := p];
          err = unoAPI_PDF env (trace w1) inputPath (outputPaths1 ! i) options;
          w2 = emit (EvPDF inputPath (outputPaths1 ! i) options err) w1
      in case err of
           Some e \<Rightarrow>
             (if errors_Is e ErrMalformedPageRanges
              then (Inl (malformed_page_ranges_error ''convert to PDF'' e options), w2)
              else (Inl (Errorf ''convert to PDF'' e), w2))
         | None \<Rightarrow> convert_each env options rest (Suc i) outputPaths1 w2)"

text \<open>The error mapping of lines 130 to 141, repeated at lines 174 to 186.\<close>

definition convert_PDF_error :: "string \<Rightarrow> error \<Rightarrow> error" where
  "convert_PDF_error PDFformat' e =
     (if errors_Is e ErrPDFFormatNotAvailable
      then WrapError (Errorf ''convert PDF'' e)
             (NewSentinelHTTPError StatusBadRequest
                (''At least one PDF engine does not handle the PDF format '' @ [CHR 0x27] @
                 PDFformat' @ [CHR 0x27] @
                 '' (pdfFormat), while other have failed to convert for other reasons''))
      else Errorf ''convert PDF'' e)"

text \<open>\<^verbatim>\<open>ctx.AddOutputPaths(paths...)\<close> and the wrapping of its error.\<close>

definition add_output_paths :: "env \<Rightarrow> string \<Rightarrow> string list \<Rightarrow> world \<Rightarrow> error option \<times> world" where
  "add_output_paths env prefix paths w =
     (let err = ctx_AddOutputPaths env (trace w) paths;
          w1 = emit (EvAddOutputPaths paths err) w
      in case err of
           Some e \<Rightarrow> (Some (Errorf prefix e), w1)
         | None \<Rightarrow> (None, w1))"

text \<open>The branch of lines 110 to 157: merge, then reformat the merged file.\<close>

definition merge_branch :: "env \<Rightarrow> string \<Rightarrow> string list \<Rightarrow> world \<Rightarrow> error option \<times> world" where
  "merge_branch env PDFformat' outputPaths w =
     (let outputPath = ctx_GeneratePath env (trace w) ''.pdf'';
          w1 = emit (EvGeneratePath ''.pdf'' outputPath) w;
          err = engine_Merge env (trace w1) outputPaths outputPath;
          w2 = emit (EvMerge outputPaths outputPath err) w1
      in case err of
           Some e \<Rightarrow> (Some (Errorf ''merge PDFs'' e), w2)
         | None \<Rightarrow>
             (if PDFformat' \<noteq> '''' then
                (let convertInputPath = outputPath;
                     convertOutputPath = ctx_GeneratePath env (trace w2) ''.pdf'';
                     w3 = emit (EvGeneratePath ''.pdf'' convertOutputPath) w2;
                     err = engine_Convert env (trace w3) PDFformat' convertInputPath convertOutputPath;
                     w4 = emit (EvConvert PDFformat' convertInputPath convertOutputPath err) w3
                 in case err of
                      Some e \<Rightarrow> (Some (convert_PDF_error PDFformat' e), w4)
                    | None \<Rightarrow> add_output_paths env ''add output path'' [convertOutputPath] w4)
              else add_output_paths env ''add output path'' [outputPath] w2))"

text \<open>The loop of lines 168 to 188: one \<^verbatim>\<open>engine.Convert\<close> call per produced PDF.\<close>

fun reformat_each :: "env \<Rightarrow> string \<Rightarrow> string list \<Rightarrow> nat \<Rightarrow> string list \<Rightarrow> world
    \<Rightarrow> (error + string list) \<times> world" where
  "reformat_each env PDFformat' [] i convertOutputPaths w = (Inr convertOutputPaths, w)"
| "reformat_each env PDFformat' (outputPath # rest) i convertOutputPaths w =
     (let convertInputPath = outputPath;
          p = ctx_GeneratePath env (trace w) ''.pdf'';
          w1 = emit (EvGeneratePath ''.pdf'' p) w;
          convertOutputPaths1 = convertOutputPaths[i := p];
          err = engine_Convert env (trace w1) PDFformat' convertInputPath (convertOutputPaths1 ! i);
          w2 = emit (EvConvert PDFformat' convertInputPath (convertOutputPaths1 ! i) err) w1
      in case err of
           Some e \<Rightarrow> (Inl (convert_PDF_error PDFformat' e), w2)
         | None \<Rightarrow> reformat_each env PDFformat' rest (Suc i) convertOutputPaths1 w2)"

text \<open>The tail of lines 165 to 202: reformat each PDF if asked, then add the paths.\<close>

definition no_merge_branch :: "env \<Rightarrow> string \<Rightarrow> string list \<Rightarrow> world \<Rightarrow> error option \<times> world" where
  "no_merge_branch env PDFformat' outputPaths w =
     (if PDFformat' \<noteq> '''' then
        (case reformat_each env PDFformat' outputPaths 0
                (replicate (length outputPaths) '''') w of
           (Inl err, w1) \<Rightarrow> (Some err, w1)
         | (Inr convertOutputPaths, w1) \<Rightarrow>
             add_output_paths env ''add output paths'' convertOutputPaths w1)
      else add_output_paths env ''add output paths'' outputPaths w)"

text \<open>
  Lines 80 to 202: the documents are converted in order, then merged or reformatted, and
  the paths of the result are added to the context.
\<close>

definition convert_documents :: "env \<Rightarrow> FormData \<Rightarrow> string \<Rightarrow> world \<Rightarrow> error option \<times> world" where
  "convert_documents env form nativePDFformat w =
     (let options = \<lparr>Landscape = landscape form,
                     PageRanges = Textual (nativePageRanges form),
                     PDFformat = nativePDFformat\<rparr>
      in case convert_each env options (inputPaths form) 0
                (replicate (length (inputPaths form)) '''') w of
           (Inl err, w1) \<Rightarrow> (Some err, w1)
         | (Inr outputPaths, w1) \<Rightarrow>
             (if length outputPaths > 1 \<and> merge form
              then merge_branch env (pdfFormat form) outputPaths w1
              else no_merge_branch env (pdfFormat form) outputPaths w1))"

text \<open>The handler: validation of the form, the three conflicts, then the conversion.\<close>

definition convertRoute :: "env \<Rightarrow> error + FormData \<Rightarrow> world \<Rightarrow> error option \<times> world" where
  "convertRoute env validated w =
     (case validated of
        Inl err \<Rightarrow> (Some (Errorf ''validate form data'' err), w)
      | Inr form \<Rightarrow>
          (let w1 = (if nativePdfA1aFormat form then emit (EvWarn deprecated_warning) w else w)
           in if nativePdfA1aFormat form \<and> nativePdfFormat form \<noteq> '''' then
                (Some (WrapError
                   (errors_New ''got both 'nativePdfFormat' and 'nativePdfA1aFormat' form fields'')
                   (NewSentinelHTTPError StatusBadRequest
                      ''Both 'nativePdfFormat' and 'nativePdfA1aFormat' form fields are provided'')), w1)
              else if nativePdfA1aFormat form \<and> pdfFormat form \<noteq> '''' then
                (Some (WrapError
                   (errors_New ''got both 'pdfFormat' and 'nativePdfA1aFormat' form fields'')
                   (NewSentinelHTTPError StatusBadRequest
                      ''Both 'pdfFormat' and 'nativePdfA1aFormat' form fields are provided'')), w1)
              else if nativePdfFormat form \<noteq> '''' \<and> pdfFormat form \<noteq> '''' then
                (Some (WrapError
                   (errors_New ''got both 'pdfFormat' and 'nativePdfFormat' form fields'')
                   (NewSentinelHTTPError StatusBadRequest
                      ''Both 'pdfFormat' and 'nativePdfFormat' form fields are provided'')), w1)
              else
                convert_documents env form
                  (if nativePdfA1aFormat form then FormatPDFA1a env else nativePdfFormat form) w1))"

section \<open>createPNG\<close>

text \<open>
  Lines 254 to 297: the verbosity flag, the command, the counted run and the reading of
  its result. The two mutexes are not modelled: the model runs one handler at a time.
\<close>

definition createPNG_exec :: "env \<Rightarrow> string \<Rightarrow> string \<Rightarrow> Options \<Rightarrow> string list \<Rightarrow> world
    \<Rightarrow> error option \<times> world" where
  "createPNG_exec env inputPath outputPath options args w =
     (let args1 = (if logger_Check_debug env then args @ [''-vvv''] else args);
          args2 = args1 @ [''--output'', outputPath, inputPath];
          cerr = gotenberg_CommandContext env (trace w) (unoconvBinPath env) args2;
          w1 = emit (EvCommandContext (unoconvBinPath env) args2 cerr) w
      in case cerr of
           Some e \<Rightarrow> (Some (Errorf ''create unoconv command'' e), w1)
         | None \<Rightarrow>
             (let w2 = emit (EvLogDebug options) w1;
                  w3 = w2\<lparr>activeInstancesCount := activeInstancesCount w2 + 1\<rparr>;
                  (exitCode, err) = cmd_Exec env (trace w3) (unoconvBinPath env) args2;
                  w4 = emit (EvExec (unoconvBinPath env) args2 exitCode err) w3;
                  w5 = w4\<lparr>activeInstancesCount := activeInstancesCount w4 - 1\<rparr>
              in case err of
                   None \<Rightarrow> (None, w5)
                 | Some e \<Rightarrow>
                     (if exitCode = 5 \<and> PageRanges options \<noteq> Textual ''''
                      then (Some ErrMalformedPageRanges, w5)
                      else (Some (Errorf ''unoconv PNG'' e), w5))))"

text \<open>
  Lines 207 to 252, then the rest, then the deferred calls: in the first case the stop
  of the private listener (its error is logged), in the other the goroutine that
  unlocks the long-running one.
\<close>

definition createPNG :: "env \<Rightarrow> string \<Rightarrow> string \<Rightarrow> Options \<Rightarrow> world \<Rightarrow> error option \<times> world" where
  "createPNG env inputPath outputPath options w0 =
     (let w = emit (EvCreatePNG inputPath outputPath options) w0;
          args = [''--no-launch'', ''--format'', ''png'']
      in if libreOfficeRestartThreshold env = 0 then
           (let err = listener_start env (trace w);
                w1 = emit (EvStart err) w
            in case err of
                 Some e \<Rightarrow> (Some (Errorf ''start LibreOffice listener'' e), w1)
               | None \<Rightarrow>
                   (let port = listener_port env NewListener (trace w1);
                        w2 = emit (EvPort NewListener port) w1;
                        args1 = args @ [''--port'', Sprintf_d port];
                        (result, w3) = createPNG_exec env inputPath outputPath options args1 w2;
                        serr = listener_stop env (trace w3);
                        w4 = emit (EvStop serr) w3;
                        w5 = (case serr of
                                Some e \<Rightarrow> emit (EvLogError ''stop LibreOffice listener'' e) w4
                              | None \<Rightarrow> w4)
                    in (result, w5)))
         else
           (let err = listener_lock env (trace w);
                w1 = emit (EvLock err) w
            in case err of
                 Some e \<Rightarrow> (Some (Errorf ''lock long-running LibreOffice listener'' e), w1)
               | None \<Rightarrow>
                   (let port = listener_port env ModListener (trace w1);
                        w2 = emit (EvPort ModListener port) w1;
                        args1 = args @ [''--port'', Sprintf_d port];
                        (result, w3) = createPNG_exec env inputPath outputPath options args1 w2;
                        w4 = emit EvGoUnlock w3
                    in (result, w4))))"

section \<open>generateThumnailRoute\<close>

text \<open>The loop of lines 359 to 380: one \<^verbatim>\<open>createPNG\<close> call per input, in order.\<close>

fun thumbnail_each :: "env \<Rightarrow> bool \<Rightarrow> string list \<Rightarrow> nat \<Rightarrow> string list \<Rightarrow> world
    \<Rightarrow> (error + string list) \<times> world" where
  "thumbnail_each env landscape' [] i outputPaths w = (Inr outputPaths, w)"
| "thumbnail_each env landscape' (inputPath # rest) i outputPaths w =
     (let p = ctx_GeneratePath env (trace w) ''.png'';
          w1 = emit (EvGeneratePath ''.png'' p) w;
          outputPaths1 = outputPaths[i := p];
          options = \<lparr>Landscape = landscape',
                     PageRanges = PageIndex 1,
                     PDFformat = pkg_nativePDFformat w1\<rparr>;
          (err, w2) = createPNG env inputPath (outputPaths1 ! i) options w1
      in case err of
           Some e \<Rightarrow>
             (if errors_Is e ErrMalformedPageRanges
              then (Inl (malformed_page_ranges_error ''created thumbnail'' e options), w2)
              else (Inl (Errorf ''create thumbnail'' e), w2))
         | None \<Rightarrow> thumbnail_each env landscape' rest (Suc i) outputPaths1 w2)"

definition generateThumnailRoute :: "env \<Rightarrow> error + FormData \<Rightarrow> world \<Rightarrow> error option \<times> world" where
  "generateThumnailRoute env validated w =
     (case validated of
        Inl err \<Rightarrow> (Some (Errorf ''validate form data'' err), w)
      | Inr form \<Rightarrow>
          (let w1 = (if pkg_nativePDFA1aFormat w then emit (EvWarn deprecated_warning) w else w)
           in if pkg_nativePDFA1aFormat w1 \<and> pkg_nativePDFformat w1 \<noteq> '''' then
                (Some (WrapError
                   (errors_New ''got both 'nativePdfFormat' and 'nativePdfA1aFormat' form fields'')
                   (NewSentinelHTTPError StatusBadRequest
                      ''Both 'nativePdfFormat' and 'nativePdfA1aFormat' form fields are provided'')), w1)
              else if pkg_nativePDFA1aFormat w1 \<and> pkg_PDFformat w1 \<noteq> '''' then
                (Some (WrapError
                   (errors_New ''got both 'pdfFormat' and 'nativePdfA1aFormat' form fields'')
                   (NewSentinelHTTPError StatusBadRequest
                      ''Both 'pdfFormat' and 'nativePdfA1aFormat' form fields are provided'')), w1)
              else if pkg_nativePDFformat w1 \<noteq> '''' \<and> pkg_PDFformat w1 \<noteq> '''' then
                (Some (WrapError
                   (errors_New ''got both 'pdfFormat' and 'nativePdfFormat' form fields'')
                   (NewSentinelHTTPError StatusBadRequest
                      ''Both 'pdfFormat' and 'nativePdfFormat' form fields are provided'')), w1)
              else
                (let w2 = (if pkg_nativePDFA1aFormat w1
                           then w1\<lparr>pkg_nativePDFformat := FormatPDFA1a env\<rparr> else w1)
                 in case thumbnail_each env (landscape form) (inputPaths form) 0
                           (replicate (length (inputPaths form)) '''') w2 of
                      (Inl err, w3) \<Rightarrow> (Some err, w3)
                    | (Inr outputPaths, w3) \<Rightarrow>
                        add_output_paths env ''add output paths'' outputPaths w3)))"

section \<open>Reading a trace\<close>

text \<open>What each kind of call contributes to the views of a trace used below.\<close>

fun pdf_call :: "event \<Rightarrow> (string \<times> string) list" where
  "pdf_call (EvPDF inputPath outputPath options r) = [(inputPath, outputPath)]"
| "pdf_call _ = []"

fun pdf_failure :: "event \<Rightarrow> error list" where
  "pdf_failure (EvPDF inputPath outputPath options (Some e)) = [e]"
| "pdf_failure _ = []"

fun merge_call :: "event \<Rightarrow> (string list \<times> string) list" where
  "merge_call (EvMerge inputs outputPath r) = [(inputs, outputPath)]"
| "merge_call _ = []"

fun convert_call :: "event \<Rightarrow> (string \<times> string) list" where
  "convert_call (EvConvert f inputPath outputPath r) = [(inputPath, outputPath)]"
| "convert_call _ = []"

fun convert_failure :: "event \<Rightarrow> (string \<times> error) list" where
  "convert_failure (EvConvert f inputPath outputPath (Some e)) = [(f, e)]"
| "convert_failure _ = []"

fun add_call :: "event \<Rightarrow> string list list" where
  "add_call (EvAddOutputPaths paths r) = [paths]"
| "add_call _ = []"

fun createPNG_call :: "event \<Rightarrow> (string \<times> string \<times> Options) list" where
  "createPNG_call (EvCreatePNG inputPath outputPath options) = [(inputPath, outputPath, options)]"
| "createPNG_call _ = []"

fun generated_path :: "event \<Rightarrow> (string \<times> string) list" where
  "generated_path (EvGeneratePath extension p) = [(extension, p)]"
| "generated_path _ = []"

abbreviation pdf_calls :: "event list \<Rightarrow> (string \<times> string) list" where
  "pdf_calls tr \<equiv> concat (map pdf_call tr)"

abbreviation pdf_failures :: "event list \<Rightarrow> error list" where
  "pdf_failures tr \<equiv> concat (map pdf_failure tr)"

abbreviation merge_calls :: "event list \<Rightarrow> (string list \<times> string) list" where
  "merge_calls tr \<equiv> concat (map merge_call tr)"

abbreviation convert_calls :: "event list \<Rightarrow> (string \<times> string) list" where
  "convert_calls tr \<equiv> concat (map convert_call tr)"

abbreviation convert_failures :: "event list \<Rightarrow> (string \<times> error) list" where
  "convert_failures tr \<equiv> concat (map convert_failure tr)"

abbreviation add_calls :: "event list \<Rightarrow> string list list" where
  "add_calls tr \<equiv> concat (map add_call tr)"

abbreviation createPNG_calls :: "event list \<Rightarrow> (string \<times> string \<times> Options) list" where
  "createPNG_calls tr \<equiv> concat (map createPNG_call tr)"

abbreviation generated_paths :: "event list \<Rightarrow> (string \<times> string) list" where
  "generated_paths tr \<equiv> concat (map generated_path tr)"

text \<open>The events a call has added to the trace.\<close>

definition events_since :: "world \<Rightarrow> world \<Rightarrow> event list" where
  "events_since w w' = drop (length (trace w)) (trace w')"

text \<open>
  The order of lock and port in a trace of the long-running listener.
  \<^verbatim>\<open>port_read_under_lock locked port tr\<close> holds when every read of that listener's
  port in \<^verbatim>\<open>tr\<close> comes after a \<^verbatim>\<open>lock\<close> that returned \<^verbatim>\<open>nil\<close> and before the release
  of that lock, and every command is built and run with \<^verbatim>\<open>--port\<close> followed by the port
  read under the lock that is still held. \<^verbatim>\<open>locked\<close> and \<^verbatim>\<open>port\<close> tell what came before
  \<^verbatim>\<open>tr\<close>: whether the lock is held, and the port read since it was taken.
\<close>

fun port_read_under_lock :: "bool \<Rightarrow> int option \<Rightarrow> event list \<Rightarrow> bool" where
  "port_read_under_lock locked port [] = True"
| "port_read_under_lock locked port (EvLock None # tr) = port_read_under_lock True None tr"
| "port_read_under_lock locked port (EvGoUnlock # tr) = port_read_under_lock False None tr"
| "port_read_under_lock locked port (EvPort ModListener p # tr) =
     (locked \<and> port_read_under_lock locked (Some p) tr)"
| "port_read_under_lock locked port (EvCommandContext bin args r # tr) =
     ((case port of None \<Rightarrow> False
       | Some p \<Rightarrow> take 2 (drop 3 args) = [''--port'', Sprintf_d p]) \<and>
      port_read_under_lock locked port tr)"
| "port_read_under_lock locked port (EvExec bin args c r # tr) =
     ((case port of None \<Rightarrow> False
       | Some p \<Rightarrow> take 2 (drop 3 args) = [''--port'', Sprintf_d p]) \<and>
      port_read_under_lock locked port tr)"
| "port_read_under_lock locked port (ev # tr) = port_read_under_lock locked port tr"

section \<open>The runs of createPNG as a relation\<close>

text \<open>
  The arguments \<^verbatim>\<open>createPNG\<close> has collected once the port is known, and those of the
  command it builds from them.
\<close>

definition png_args :: "int \<Rightarrow> string list" where
  "png_args port = [''--no-launch'', ''--format'', ''png'', ''--port'', Sprintf_d port]"

definition command_args :: "env \<Rightarrow> string list \<Rightarrow> string \<Rightarrow> string \<Rightarrow> string list" where
  "command_args env args inputPath outputPath =
     (if logger_Check_debug env then args @ [''-vvv''] else args) @
     [''--output'', outputPath, inputPath]"

text \<open>
  Every way lines 254 to 297 can go, as the result returned and the events left behind;
  then the same for the whole of \<^verbatim>\<open>createPNG\<close>. The lemmas \<^verbatim>\<open>createPNG_exec_events\<close>
  and \<^verbatim>\<open>createPNG_run\<close> below show that each run of the functions above is one of these.
\<close>

inductive command_events :: "string \<Rightarrow> string list \<Rightarrow> Options \<Rightarrow> error option \<Rightarrow> event list \<Rightarrow> bool"
  for bin :: string and args :: "string list" and options :: Options where
  no_command:
    "command_events bin args options (Some (Errorf ''create unoconv command'' e))
       [EvCommandContext bin args (Some e)]"
| exec_nil:
    "command_events bin args options None
       [EvCommandContext bin args None, EvLogDebug options, EvExec bin args exitCode None]"
| exec_malformed:
    "PageRanges options \<noteq> Textual '''' \<Longrightarrow>
     command_events bin args options (Some ErrMalformedPageRanges)
       [EvCommandContext bin args None, EvLogDebug options, EvExec bin args 5 (Some e)]"
| exec_failed:
    "exitCode \<noteq> 5 \<or> PageRanges options = Textual '''' \<Longrightarrow>
     command_events bin args options (Some (Errorf ''unoconv PNG'' e))
       [EvCommandContext bin args None, EvLogDebug options, EvExec bin args exitCode (Some e)]"

inductive createPNG_events :: "env \<Rightarrow> string \<Rightarrow> string \<Rightarrow> Options \<Rightarrow> error option \<Rightarrow> event list \<Rightarrow> bool"
  for env :: env and inputPath :: string and outputPath :: string and options :: Options where
  start_failed:
    "libreOfficeRestartThreshold env = 0 \<Longrightarrow>
     createPNG_events env inputPath outputPath options
       (Some (Errorf ''start LibreOffice listener'' e))
       [EvCreatePNG inputPath outputPath options, EvStart (Some e)]"
| private_stopped:
    "libreOfficeRestartThreshold env = 0 \<Longrightarrow>
     command_events (unoconvBinPath env) (command_args env (png_args port) inputPath outputPath)
       options r xs \<Longrightarrow>
     createPNG_events env inputPath outputPath options r
       (EvCreatePNG inputPath outputPath options # EvStart None # EvPort NewListener port #
        xs @ [EvStop None])"
| private_stop_failed:
    "libreOfficeRestartThreshold env = 0 \<Longrightarrow>
     command_events (unoconvBinPath env) (command_args env (png_args port) inputPath outputPath)
       options r xs \<Longrightarrow>
     createPNG_events env inputPath outputPath options r
       (EvCreatePNG inputPath outputPath options # EvStart None # EvPort NewListener port #
        xs @ [EvStop (Some e), EvLogError ''stop LibreOffice listener'' e])"
| lock_failed:
    "libreOfficeRestartThreshold env \<noteq> 0 \<Longrightarrow>
     createPNG_events env inputPath outputPath options
       (Some (Errorf ''lock long-running LibreOffice listener'' e))
       [EvCreatePNG inputPath outputPath options, EvLock (Some e)]"
| locked:
    "libreOfficeRestartThreshold env \<noteq> 0 \<Longrightarrow>
     command_events (unoconvBinPath env) (command_args env (png_args port) inputPath outputPath)
       options r xs \<Longrightarrow>
     createPNG_events env inputPath outputPath options r
       (EvCreatePNG inputPath outputPath options # EvLock None # EvPort ModListener port #
        xs @ [EvGoUnlock])"

section \<open>Notions used in the statements\<close>

text \<open>How many of the three format options a form sets.\<close>

definition format_options_set :: "FormData \<Rightarrow> nat" where
  "format_options_set form =
     (if nativePdfA1aFormat form then 1 else 0) +
     (if nativePdfFormat form \<noteq> '''' then 1 else 0) +
     (if pdfFormat form \<noteq> '''' then 1 else 0)"

text \<open>
  The error of lines 55 to 74 for the form fields \<^verbatim>\<open>x\<close> and \<^verbatim>\<open>y\<close>: the logged text
  \<^verbatim>\<open>got both 'x' and 'y' form fields\<close> and the status 400 with
  \<^verbatim>\<open>Both 'x' and 'y' form fields are provided\<close>.
\<close>

definition both_provided :: "string \<Rightarrow> string \<Rightarrow> error" where
  "both_provided x y =
     WrapError
       (errors_New (''got both '' @ [CHR 0x27] @ x @ ''' and '' @ [CHR 0x27] @ y @ ''' form fields''))
       (NewSentinelHTTPError 400
          (''Both '' @ [CHR 0x27] @ x @ ''' and '' @ [CHR 0x27] @ y @ ''' form fields are provided''))"

text \<open>The error a handler returns when the conversion of a document has failed with \<^verbatim>\<open>e\<close>.\<close>

definition route_error :: "string \<Rightarrow> Options \<Rightarrow> error \<Rightarrow> error" where
  "route_error prefix options e =
     (if errors_Is e ErrMalformedPageRanges
      then malformed_page_ranges_error prefix e options
      else Errorf prefix e)"


section \<open>Example inputs\<close>

text \<open>
  A small environment in which every collaborator succeeds, the long-running listener
  is in use and generated paths are numbered by the length of the trace; the examples
  below vary it one field at a time.
\<close>

definition example_env :: env where
  "example_env =
     \<lparr>FormatPDFA1a = ''PDF/A-1a'',
      ctx_GeneratePath = (\<lambda>tr extension. ''/tmp/'' @ digits (length tr) @ extension),
      ctx_AddOutputPaths = (\<lambda>tr paths. None),
      unoAPI_PDF = (\<lambda>tr inputPath outputPath options. None),
      engine_Merge = (\<lambda>tr inputs outputPath. None),
      engine_Convert = (\<lambda>tr f inputPath outputPath. None),
      libreOfficeRestartThreshold = 10,
      unoconvBinPath = ''unoconv'',
      listener_start = (\<lambda>tr. None),
      listener_stop = (\<lambda>tr. None),
      listener_lock = (\<lambda>tr. None),
      listener_port = (\<lambda>l tr. 2002),
      logger_Check_debug = False,
      gotenberg_CommandContext = (\<lambda>tr bin args. None),
      cmd_Exec = (\<lambda>tr bin args. (0, None))\<rparr>"

definition example_world :: world where
  "example_world =
     \<lparr>trace = [], activeInstancesCount = 0, pkg_nativePDFA1aFormat = False,
      pkg_nativePDFformat = '''', pkg_PDFformat = ''''\<rparr>"

definition example_form :: FormData where
  "example_form =
     \<lparr>inputPaths = [''a.docx'', ''b.docx''], landscape = False, nativePageRanges = '''',
      nativePdfA1aFormat = False, nativePdfFormat = '''', pdfFormat = '''', merge = False\<rparr>"

definition example_options :: Options where
  "example_options = \<lparr>Landscape = False, PageRanges = PageIndex 1, PDFformat = ''''\<rparr>"

text \<open>A command runner whose process ends with exit code 5 and an error.\<close>

definition env_exit5 :: env where
  "env_exit5 = example_env\<lparr>cmd_Exec := (\<lambda>tr bin args. (5, Some (errors_New ''exit status 5'')))\<rparr>"

text \<open>Environments in which one collaborator fails.\<close>

definition env_b_fails :: env where
  "env_b_fails = example_env\<lparr>unoAPI_PDF :=
     (\<lambda>tr inputPath outputPath options.
        if inputPath = ''b.docx'' then Some (errors_New ''boom'') else None)\<rparr>"


definition env_format_not_available :: env where
  "env_format_not_available = example_env\<lparr>engine_Convert :=
     (\<lambda>tr f inputPath outputPath. Some ErrPDFFormatNotAvailable)\<rparr>"

section \<open>Facts about the steps\<close>

lemma trace_emit [simp]: "trace (emit ev w) = trace w @ [ev]"
  by (simp add: emit_def)

lemma emit_fields [simp]:
  "activeInstancesCount (emit ev w) = activeInstancesCount w"
  "pkg_nativePDFA1aFormat (emit ev w) = pkg_nativePDFA1aFormat w"
  "pkg_nativePDFformat (emit ev w) = pkg_nativePDFformat w"
  "pkg_PDFformat (emit ev w) = pkg_PDFformat w"
  by (simp_all add: emit_def)

lemma createPNG_exec_events:
  assumes "createPNG_exec env inputPath outputPath options args w = (r, w')"
  shows "\<exists>xs. command_events (unoconvBinPath env) (command_args env args inputPath outputPath)
                 options r xs \<and> w' = w\<lparr>trace := trace w @ xs\<rparr> \<and>
              (\<forall>b a c err. EvExec b a c err \<in> set xs \<longrightarrow>
                 (\<exists>tr. cmd_Exec env tr b a = (c, err)))"
proof -
  let ?bin = "unoconvBinPath env"
  let ?args = "command_args env args inputPath outputPath"
  show ?thesis
  proof (cases "gotenberg_CommandContext env (trace w) ?bin ?args")
    case (Some e)
    with assms have "r = Some (Errorf ''create unoconv command'' e)"
      and "w' = w\<lparr>trace := trace w @ [EvCommandContext ?bin ?args (Some e)]\<rparr>"
      by (simp_all add: createPNG_exec_def command_args_def Let_def emit_def)
    moreover have "command_events ?bin ?args options (Some (Errorf ''create unoconv command'' e))
        [EvCommandContext ?bin ?args (Some e)]"
      by (rule no_command)
    ultimately show ?thesis
      by (intro exI [of _ "[EvCommandContext ?bin ?args (Some e)]"]) simp
  next
    case None
    let ?tr = "trace w @ [EvCommandContext ?bin ?args None, EvLogDebug options]"
    obtain exitCode err where ex: "cmd_Exec env ?tr ?bin ?args = (exitCode, err)"
      by (cases "cmd_Exec env ?tr ?bin ?args")
    let ?xs = "[EvCommandContext ?bin ?args None, EvLogDebug options, EvExec ?bin ?args exitCode err]"
    have w': "w' = w\<lparr>trace := trace w @ ?xs\<rparr>"
      using assms None ex
      by (cases err) (auto simp: createPNG_exec_def command_args_def Let_def emit_def split: if_splits)
    have "command_events ?bin ?args options r ?xs"
    proof (cases err)
      case None
      with assms \<open>gotenberg_CommandContext env (trace w) ?bin ?args = None\<close> ex have "r = None"
        by (simp add: createPNG_exec_def command_args_def Let_def emit_def)
      with None show ?thesis by (simp add: exec_nil)
    next
      case (Some e)
      show ?thesis
      proof (cases "exitCode = 5 \<and> PageRanges options \<noteq> Textual ''''")
        case True
        with assms \<open>gotenberg_CommandContext env (trace w) ?bin ?args = None\<close> ex Some
        have "r = Some ErrMalformedPageRanges"
          by (simp add: createPNG_exec_def command_args_def Let_def emit_def)
        with True Some show ?thesis by (simp add: exec_malformed)
      next
        case False
        with assms \<open>gotenberg_CommandContext env (trace w) ?bin ?args = None\<close> ex Some
        have "r = Some (Errorf ''unoconv PNG'' e)"
          by (auto simp: createPNG_exec_def command_args_def Let_def emit_def)
        with False Some show ?thesis using exec_failed [of exitCode options ?bin ?args e] by auto
      qed
    qed
    moreover from ex have "\<forall>b a c err'. EvExec b a c err' \<in> set ?xs \<longrightarrow>
        (\<exists>tr. cmd_Exec env tr b a = (c, err'))"
      by auto
    ultimately show ?thesis using w' by (intro exI [of _ ?xs]) simp
  qed
qed


lemma createPNG_run:
  assumes "createPNG env inputPath outputPath options w = (r, w')"
  shows "\<exists>ys. createPNG_events env inputPath outputPath options r ys \<and>
              w' = w\<lparr>trace := trace w @ ys\<rparr> \<and>
              (\<forall>b a c err. EvExec b a c err \<in> set ys \<longrightarrow>
                 (\<exists>tr. cmd_Exec env tr b a = (c, err)))"
proof -
  let ?c = "EvCreatePNG inputPath outputPath options"
  let ?w = "emit ?c w"
  show ?thesis
  proof (cases "libreOfficeRestartThreshold env = 0")
    case True
    show ?thesis
    proof (cases "listener_start env (trace ?w)")
      case (Some e)
      with assms True have "r = Some (Errorf ''start LibreOffice listener'' e)"
        and "w' = w\<lparr>trace := trace w @ [?c, EvStart (Some e)]\<rparr>"
        by (simp_all add: createPNG_def Let_def emit_def)
      then show ?thesis using start_failed [OF True]
        by (intro exI [of _ "[?c, EvStart (Some e)]"]) simp
    next
      case None
      let ?w1 = "emit (EvStart None) ?w"
      let ?port = "listener_port env NewListener (trace ?w1)"
      let ?w2 = "emit (EvPort NewListener ?port) ?w1"
      obtain r3 w3 where run:
        "createPNG_exec env inputPath outputPath options (png_args ?port) ?w2 = (r3, w3)"
        by (cases "createPNG_exec env inputPath outputPath options (png_args ?port) ?w2")
      from createPNG_exec_events [OF run] obtain xs where
        xs: "command_events (unoconvBinPath env)
               (command_args env (png_args ?port) inputPath outputPath) options r3 xs"
        and w3: "w3 = ?w2\<lparr>trace := trace ?w2 @ xs\<rparr>"
        and runner: "\<forall>b a c err. EvExec b a c err \<in> set xs \<longrightarrow>
               (\<exists>tr. cmd_Exec env tr b a = (c, err))"
        by blast
      from assms True None run have r: "r = r3"
        by (simp add: createPNG_def Let_def png_args_def)
      show ?thesis
      proof (cases "listener_stop env (trace w3)")
        case None
        let ?ys = "?c # EvStart None # EvPort NewListener ?port # xs @ [EvStop None]"
        from None assms True \<open>listener_start env (trace ?w) = None\<close> run w3
        have "w' = w\<lparr>trace := trace w @ ?ys\<rparr>"
          by (simp add: createPNG_def Let_def png_args_def emit_def)
        moreover from private_stopped [OF True xs] r
        have "createPNG_events env inputPath outputPath options r ?ys" by simp
        moreover from runner have "\<forall>b a c err. EvExec b a c err \<in> set ?ys \<longrightarrow>
               (\<exists>tr. cmd_Exec env tr b a = (c, err))" by simp
        ultimately show ?thesis by blast
      next
        case (Some e)
        let ?ys = "?c # EvStart None # EvPort NewListener ?port #
                     xs @ [EvStop (Some e), EvLogError ''stop LibreOffice listener'' e]"
        from Some assms True \<open>listener_start env (trace ?w) = None\<close> run w3
        have "w' = w\<lparr>trace := trace w @ ?ys\<rparr>"
          by (simp add: createPNG_def Let_def png_args_def emit_def)
        moreover from private_stop_failed [OF True xs] r
        have "createPNG_events env inputPath outputPath options r ?ys" by simp
        moreover from runner have "\<forall>b a c err. EvExec b a c err \<in> set ?ys \<longrightarrow>
               (\<exists>tr. cmd_Exec env tr b a = (c, err))" by simp
        ultimately show ?thesis by blast
      qed
    qed
  next
    case False
    show ?thesis
    proof (cases "listener_lock env (trace ?w)")
      case (Some e)
      with assms False have "r = Some (Errorf ''lock long-running LibreOffice listener'' e)"
        and "w' = w\<lparr>trace := trace w @ [?c, EvLock (Some e)]\<rparr>"
        by (simp_all add: createPNG_def Let_def emit_def)
      then show ?thesis using lock_failed [OF False]
        by (intro exI [of _ "[?c, EvLock (Some e)]"]) simp
    next
      case None
      let ?w1 = "emit (EvLock None) ?w"
      let ?port = "listener_port env ModListener (trace ?w1)"
      let ?w2 = "emit (EvPort ModListener ?port) ?w1"
      obtain r3 w3 where run:
        "createPNG_exec env inputPath outputPath options (png_args ?port) ?w2 = (r3, w3)"
        by (cases "createPNG_exec env inputPath outputPath options (png_args ?port) ?w2")
      from createPNG_exec_events [OF run] obtain xs where
        xs: "command_events (unoconvBinPath env)
               (command_args env (png_args ?port) inputPath outputPath) options r3 xs"
        and w3: "w3 = ?w2\<lparr>trace := trace ?w2 @ xs\<rparr>"
        and runner: "\<forall>b a c err. EvExec b a c err \<in> set xs \<longrightarrow>
               (\<exists>tr. cmd_Exec env tr b a = (c, err))"
        by blast
      let ?ys = "?c # EvLock None # EvPort ModListener ?port # xs @ [EvGoUnlock]"
      from assms False None run w3 have r: "r = r3"
        and "w' = w\<lparr>trace := trace w @ ?ys\<rparr>"
        by (simp_all add: createPNG_def Let_def png_args_def emit_def)
      moreover from locked [OF False xs] r
      have "createPNG_events env inputPath outputPath options r ?ys" by simp
      moreover from runner have "\<forall>b a c err. EvExec b a c err \<in> set ?ys \<longrightarrow>
               (\<exists>tr. cmd_Exec env tr b a = (c, err))" by simp
      ultimately show ?thesis by blast
    qed
  qed
qed

lemma events_since_append [simp]: "events_since w (w\<lparr>trace := trace w @ ys\<rparr>) = ys"
  by (simp add: events_since_def)


lemma command_events_err:
  assumes "command_events bin args options r xs" and "EvExec b a c (Some e) \<in> set xs"
  shows "r = Some (if c = 5 \<and> PageRanges options \<noteq> Textual '''' then ErrMalformedPageRanges
                   else Errorf ''unoconv PNG'' e)"
  using assms by cases simp_all

lemma command_events_malformed:
  assumes "command_events bin args options (Some ErrMalformedPageRanges) xs"
  shows "PageRanges options \<noteq> Textual '''' \<and> (\<exists>b a e. EvExec b a 5 (Some e) \<in> set xs)"
  using assms by cases simp_all


lemma createPNG_events_err:
  assumes "createPNG_events env inputPath outputPath options r ys"
    and "EvExec b a c (Some e) \<in> set ys"
  shows "r = Some (if c = 5 \<and> PageRanges options \<noteq> Textual '''' then ErrMalformedPageRanges
                   else Errorf ''unoconv PNG'' e)"
  using assms
proof cases
  case (private_stopped port xs)
  with assms(2) have "EvExec b a c (Some e) \<in> set xs" by simp
  from command_events_err [OF private_stopped(3) this] show ?thesis .
next
  case (private_stop_failed port xs e')
  with assms(2) have "EvExec b a c (Some e) \<in> set xs" by simp
  from command_events_err [OF private_stop_failed(3) this] show ?thesis .
next
  case (locked port xs)
  with assms(2) have "EvExec b a c (Some e) \<in> set xs" by simp
  from command_events_err [OF locked(3) this] show ?thesis .
qed simp_all

lemma createPNG_events_malformed:
  assumes "createPNG_events env inputPath outputPath options (Some ErrMalformedPageRanges) ys"
  shows "PageRanges options \<noteq> Textual '''' \<and> (\<exists>b a e. EvExec b a 5 (Some e) \<in> set ys)"
  using assms
proof cases
  case (private_stopped port xs)
  from command_events_malformed [OF private_stopped(3)] show ?thesis
    unfolding private_stopped(1) by auto
next
  case (private_stop_failed port xs e)
  from command_events_malformed [OF private_stop_failed(3)] show ?thesis
    unfolding private_stop_failed(1) by auto
next
  case (locked port xs)
  from command_events_malformed [OF locked(3)] show ?thesis
    unfolding locked(1) by auto
qed

lemma digits_2002: "digits 2002 = ''2002''"
  by code_simp

lemma createPNG_exit5_run:
  "createPNG env_exit5 ''a.docx'' ''/tmp/a.png'' options example_world =
     (Some (if PageRanges options \<noteq> Textual '''' then ErrMalformedPageRanges
            else Errorf ''unoconv PNG'' (errors_New ''exit status 5'')),
      example_world\<lparr>trace :=
        [EvCreatePNG ''a.docx'' ''/tmp/a.png'' options,
         EvLock None,
         EvPort ModListener 2002,
         EvCommandContext ''unoconv''
           [''--no-launch'', ''--format'', ''png'', ''--port'', ''2002'',
            ''--output'', ''/tmp/a.png'', ''a.docx''] None,
         EvLogDebug options,
         EvExec ''unoconv''
           [''--no-launch'', ''--format'', ''png'', ''--port'', ''2002'',
            ''--output'', ''/tmp/a.png'', ''a.docx''] 5 (Some (errors_New ''exit status 5'')),
         EvGoUnlock]\<rparr>)"
  by (simp add: createPNG_def createPNG_exec_def env_exit5_def
        example_env_def example_world_def emit_def Let_def Sprintf_d_def
        digits_2002)



lemma events_since_example [simp]:
  "events_since example_world (example_world\<lparr>trace := ys\<rparr>) = ys"
  by (simp add: events_since_def example_world_def)

lemma convert_each_other_calls:
  "convert_each env options ins i outs w = (res, w') \<Longrightarrow>
   merge_calls (trace w') = merge_calls (trace w) \<and>
   convert_calls (trace w') = convert_calls (trace w) \<and>
   convert_failures (trace w') = convert_failures (trace w) \<and>
   add_calls (trace w') = add_calls (trace w)"
  by (induction ins arbitrary: i outs w) (auto simp: Let_def split: option.splits if_splits)

lemma convert_each_ok:
  "convert_each env options ins i outs w = (Inr outs', w') \<Longrightarrow>
   pdf_failures (trace w') = pdf_failures (trace w) \<and> length outs' = length outs"
  by (induction ins arbitrary: i outs w) (auto simp: Let_def split: option.splits if_splits)

lemma convert_each_fail:
  "convert_each env options ins i outs w = (Inl err, w') \<Longrightarrow>
   \<exists>e inputPath outputPath.
     pdf_failures (trace w') = pdf_failures (trace w) @ [e] \<and>
     err = route_error ''convert to PDF'' options e \<and>
     trace w' \<noteq> [] \<and> last (trace w') = EvPDF inputPath outputPath options (Some e)"
proof (induction ins arbitrary: i outs w)
  case Nil
  then show ?case by simp
next
  case (Cons x rest)
  let ?p = "ctx_GeneratePath env (trace w) ''.pdf''"
  let ?w1 = "emit (EvGeneratePath ''.pdf'' ?p) w"
  let ?out = "outs[i := ?p] ! i"
  show ?case
  proof (cases "unoAPI_PDF env (trace ?w1) x ?out options")
    case (Some e)
    with Cons.prems have "err = route_error ''convert to PDF'' options e"
      and "w' = emit (EvPDF x ?out options (Some e)) ?w1"
      by (auto simp: Let_def route_error_def split: if_splits)
    then show ?thesis by simp
  next
    case None
    with Cons.prems have
      "convert_each env options rest (Suc i) (outs[i := ?p]) (emit (EvPDF x ?out options None) ?w1)
         = (Inl err, w')"
      by (simp add: Let_def)
    from Cons.IH [OF this] show ?thesis by simp
  qed
qed

lemma convert_each_paths:
  "convert_each env options ins i outs w = (Inr outs', w') \<Longrightarrow>
   i + length ins \<le> length outs \<Longrightarrow>
   take i outs' = take i outs \<and>
   pdf_calls (trace w') = pdf_calls (trace w) @ zip ins (drop i outs')"
proof (induction ins arbitrary: i outs w)
  case Nil
  then show ?case by simp
next
  case (Cons x rest)
  let ?p = "ctx_GeneratePath env (trace w) ''.pdf''"
  let ?w1 = "emit (EvGeneratePath ''.pdf'' ?p) w"
  let ?outs1 = "outs[i := ?p]"
  from Cons.prems(2) have i: "i < length outs" by simp
  then have at: "?outs1 ! i = ?p" by simp
  let ?w2 = "emit (EvPDF x ?p options None) ?w1"
  from Cons.prems(1) at have ok: "unoAPI_PDF env (trace ?w1) x ?p options = None"
    by (auto simp: Let_def split: option.splits if_splits)
  with Cons.prems(1) at have rec: "convert_each env options rest (Suc i) ?outs1 ?w2 = (Inr outs', w')"
    by (simp add: Let_def)
  from Cons.prems(2) have "Suc i + length rest \<le> length ?outs1" by simp
  from Cons.IH [OF rec this] have
    tk: "take (Suc i) outs' = take (Suc i) ?outs1"
    and calls: "pdf_calls (trace w') = pdf_calls (trace ?w2) @ zip rest (drop (Suc i) outs')"
    by simp_all
  from convert_each_ok [OF rec] have len: "length outs' = length outs" by simp
  from tk have "take (Suc i) outs' ! i = take (Suc i) ?outs1 ! i" by simp
  with at have nth: "outs' ! i = ?p" by simp
  from tk have "take i (take (Suc i) outs') = take i (take (Suc i) ?outs1)" by simp
  then have t: "take i outs' = take i outs" by (simp add: min_def)
  from i len have "drop i outs' = outs' ! i # drop (Suc i) outs'"
    by (simp add: Cons_nth_drop_Suc)
  with nth calls t show ?case by simp
qed


lemma reformat_each_other_calls:
  "reformat_each env f ins i outs w = (res, w') \<Longrightarrow>
   pdf_calls (trace w') = pdf_calls (trace w) \<and>
   pdf_failures (trace w') = pdf_failures (trace w) \<and>
   merge_calls (trace w') = merge_calls (trace w) \<and>
   add_calls (trace w') = add_calls (trace w)"
  by (induction ins arbitrary: i outs w) (auto simp: Let_def split: option.splits)

lemma reformat_each_ok:
  "reformat_each env f ins i outs w = (Inr outs', w') \<Longrightarrow>
   convert_failures (trace w') = convert_failures (trace w) \<and> length outs' = length outs"
  by (induction ins arbitrary: i outs w) (auto simp: Let_def split: option.splits)

lemma reformat_each_fail:
  "reformat_each env f ins i outs w = (Inl err, w') \<Longrightarrow>
   \<exists>e. convert_failures (trace w') = convert_failures (trace w) @ [(f, e)] \<and>
       err = convert_PDF_error f e"
proof (induction ins arbitrary: i outs w)
  case Nil
  then show ?case by simp
next
  case (Cons x rest)
  let ?p = "ctx_GeneratePath env (trace w) ''.pdf''"
  let ?w1 = "emit (EvGeneratePath ''.pdf'' ?p) w"
  let ?out = "outs[i := ?p] ! i"
  show ?case
  proof (cases "engine_Convert env (trace ?w1) f x ?out")
    case (Some e)
    with Cons.prems have "err = convert_PDF_error f e"
      and "w' = emit (EvConvert f x ?out (Some e)) ?w1"
      by (auto simp: Let_def)
    then show ?thesis by simp
  next
    case None
    with Cons.prems have
      "reformat_each env f rest (Suc i) (outs[i := ?p]) (emit (EvConvert f x ?out None) ?w1)
         = (Inl err, w')"
      by (simp add: Let_def)
    from Cons.IH [OF this] show ?thesis by simp
  qed
qed

lemma reformat_each_paths:
  "reformat_each env f ins i outs w = (Inr outs', w') \<Longrightarrow>
   i + length ins \<le> length outs \<Longrightarrow>
   take i outs' = take i outs \<and>
   convert_calls (trace w') = convert_calls (trace w) @ zip ins (drop i outs')"
proof (induction ins arbitrary: i outs w)
  case Nil
  then show ?case by simp
next
  case (Cons x rest)
  let ?p = "ctx_GeneratePath env (trace w) ''.pdf''"
  let ?w1 = "emit (EvGeneratePath ''.pdf'' ?p) w"
  let ?outs1 = "outs[i := ?p]"
  from Cons.prems(2) have i: "i < length outs" by simp
  then have at: "?outs1 ! i = ?p" by simp
  let ?w2 = "emit (EvConvert f x ?p None) ?w1"
  from Cons.prems(1) at have ok: "engine_Convert env (trace ?w1) f x ?p = None"
    by (auto simp: Let_def split: option.splits)
  with Cons.prems(1) at have rec: "reformat_each env f rest (Suc i) ?outs1 ?w2 = (Inr outs', w')"
    by (simp add: Let_def)
  from Cons.prems(2) have "Suc i + length rest \<le> length ?outs1" by simp
  from Cons.IH [OF rec this] have
    tk: "take (Suc i) outs' = take (Suc i) ?outs1"
    and calls: "convert_calls (trace w') = convert_calls (trace ?w2) @ zip rest (drop (Suc i) outs')"
    by simp_all
  from reformat_each_ok [OF rec] have len: "length outs' = length outs" by simp
  from tk have "take (Suc i) outs' ! i = take (Suc i) ?outs1 ! i" by simp
  with at have nth: "outs' ! i = ?p" by simp
  from tk have "take i (take (Suc i) outs') = take i (take (Suc i) ?outs1)" by simp
  then have t: "take i outs' = take i outs" by (simp add: min_def)
  from i len have "drop i outs' = outs' ! i # drop (Suc i) outs'"
    by (simp add: Cons_nth_drop_Suc)
  with nth calls t show ?case by simp
qed

lemma add_output_paths_calls:
  "add_output_paths env prefix paths w = (r, w') \<Longrightarrow>
   add_calls (trace w') = add_calls (trace w) @ [paths] \<and>
   pdf_calls (trace w') = pdf_calls (trace w) \<and>
   pdf_failures (trace w') = pdf_failures (trace w) \<and>
   merge_calls (trace w') = merge_calls (trace w) \<and>
   convert_calls (trace w') = convert_calls (trace w) \<and>
   convert_failures (trace w') = convert_failures (trace w) \<and>
   createPNG_calls (trace w') = createPNG_calls (trace w) \<and>
   generated_paths (trace w') = generated_paths (trace w)"
  by (auto simp: add_output_paths_def Let_def split: option.splits)

text \<open>What the stages after the conversions leave in the trace.\<close>

lemma no_merge_branch_pdf:
  assumes "no_merge_branch env f outs w = (r, w')"
  shows "pdf_calls (trace w') = pdf_calls (trace w) \<and>
         pdf_failures (trace w') = pdf_failures (trace w) \<and>
         merge_calls (trace w') = merge_calls (trace w)"
proof (cases "f = ''''")
  case True
  with assms show ?thesis by (auto simp: no_merge_branch_def dest: add_output_paths_calls)
next
  case False
  obtain res w1 where re: "reformat_each env f outs 0 (replicate (length outs) '''') w = (res, w1)"
    by (cases "reformat_each env f outs 0 (replicate (length outs) '''') w")
  from reformat_each_other_calls [OF re] assms False re show ?thesis
    by (cases res) (auto simp: no_merge_branch_def dest: add_output_paths_calls)
qed

lemma no_merge_branch_convert_failure:
  assumes "no_merge_branch env f outs w = (r, w')"
  shows "(convert_failures (trace w') = convert_failures (trace w)) \<or>
         (\<exists>e. convert_failures (trace w') = convert_failures (trace w) @ [(f, e)] \<and>
              r = Some (convert_PDF_error f e) \<and> f \<noteq> '''' \<and>
              add_calls (trace w') = add_calls (trace w))"
proof (cases "f = ''''")
  case True
  with assms show ?thesis by (auto simp: no_merge_branch_def dest: add_output_paths_calls)
next
  case False
  obtain res w1 where re: "reformat_each env f outs 0 (replicate (length outs) '''') w = (res, w1)"
    by (cases "reformat_each env f outs 0 (replicate (length outs) '''') w")
  show ?thesis
  proof (cases res)
    case (Inl err)
    with assms False re have "r = Some err" "w' = w1" by (simp_all add: no_merge_branch_def)
    with reformat_each_fail [OF re [unfolded Inl]] reformat_each_other_calls [OF re] False
    show ?thesis by auto
  next
    case (Inr outs2)
    with assms False re have "add_output_paths env ''add output paths'' outs2 w1 = (r, w')"
      by (simp add: no_merge_branch_def)
    from add_output_paths_calls [OF this] reformat_each_ok [OF re [unfolded Inr]]
    show ?thesis by simp
  qed
qed

lemma no_merge_branch_done:
  assumes "no_merge_branch env f outs w = (None, w')"
  shows "if f = '''' then convert_calls (trace w') = convert_calls (trace w) \<and>
                           add_calls (trace w') = add_calls (trace w) @ [outs]
         else \<exists>outs2. length outs2 = length outs \<and>
                convert_calls (trace w') = convert_calls (trace w) @ zip outs outs2 \<and>
                add_calls (trace w') = add_calls (trace w) @ [outs2]"
proof (cases "f = ''''")
  case True
  with assms show ?thesis by (auto simp: no_merge_branch_def dest: add_output_paths_calls)
next
  case False
  obtain res w1 where re: "reformat_each env f outs 0 (replicate (length outs) '''') w = (res, w1)"
    by (cases "reformat_each env f outs 0 (replicate (length outs) '''') w")
  show ?thesis
  proof (cases res)
    case (Inl err)
    with assms False re show ?thesis by (simp add: no_merge_branch_def)
  next
    case (Inr outs2)
    with assms False re have add: "add_output_paths env ''add output paths'' outs2 w1 = (None, w')"
      by (simp add: no_merge_branch_def)
    from reformat_each_ok [OF re [unfolded Inr]] have len: "length outs2 = length outs" by simp
    from reformat_each_paths [OF re [unfolded Inr]]
    have "convert_calls (trace w1) = convert_calls (trace w) @ zip outs outs2" by simp
    with add_output_paths_calls [OF add] reformat_each_other_calls [OF re] len False
    show ?thesis by auto
  qed
qed

lemma merge_branch_pdf:
  assumes "merge_branch env f outs w = (r, w')"
  shows "pdf_calls (trace w') = pdf_calls (trace w) \<and>
         pdf_failures (trace w') = pdf_failures (trace w)"
  using assms
  by (auto simp: merge_branch_def Let_def split: option.splits if_splits
           dest: add_output_paths_calls)

lemma merge_branch_convert_failure:
  assumes "merge_branch env f outs w = (r, w')"
  shows "(convert_failures (trace w') = convert_failures (trace w)) \<or>
         (\<exists>e. convert_failures (trace w') = convert_failures (trace w) @ [(f, e)] \<and>
              r = Some (convert_PDF_error f e) \<and> f \<noteq> '''' \<and>
              add_calls (trace w') = add_calls (trace w))"
  using assms
  by (auto simp: merge_branch_def Let_def split: option.splits if_splits
           dest: add_output_paths_calls)

lemma convert_documents_pdf_failure:
  assumes "convert_documents env form nf w = (r, w')"
  shows "pdf_failures (trace w') = pdf_failures (trace w) \<or>
         (\<exists>e inputPath outputPath options.
            pdf_failures (trace w') = pdf_failures (trace w) @ [e] \<and>
            r = Some (route_error ''convert to PDF''
                       \<lparr>Landscape = landscape form, PageRanges = Textual (nativePageRanges form),
                        PDFformat = nf\<rparr> e) \<and>
            merge_calls (trace w') = merge_calls (trace w) \<and>
            convert_calls (trace w') = convert_calls (trace w) \<and>
            add_calls (trace w') = add_calls (trace w) \<and>
            trace w' \<noteq> [] \<and> last (trace w') = EvPDF inputPath outputPath options (Some e))"
proof -
  let ?opts = "\<lparr>Landscape = landscape form, PageRanges = Textual (nativePageRanges form),
                 PDFformat = nf\<rparr>"
  let ?ins = "inputPaths form"
  obtain res w1 where ce: "convert_each env ?opts ?ins 0 (replicate (length ?ins) '''') w = (res, w1)"
    by (cases "convert_each env ?opts ?ins 0 (replicate (length ?ins) '''') w")
  show ?thesis
  proof (cases res)
    case (Inl err)
    with assms ce have "r = Some err" "w' = w1" by (simp_all add: convert_documents_def)
    with convert_each_fail [OF ce [unfolded Inl]] convert_each_other_calls [OF ce]
    show ?thesis by auto
  next
    case (Inr outs)
    from convert_each_ok [OF ce [unfolded Inr]]
    have same: "pdf_failures (trace w1) = pdf_failures (trace w)" by simp
    show ?thesis
    proof (cases "length outs > 1 \<and> merge form")
      case True
      with assms ce Inr have "merge_branch env (pdfFormat form) outs w1 = (r, w')"
        by (simp add: convert_documents_def)
      from merge_branch_pdf [OF this] same show ?thesis by simp
    next
      case False
      with assms ce Inr have "no_merge_branch env (pdfFormat form) outs w1 = (r, w')"
        by (auto simp: convert_documents_def)
      from no_merge_branch_pdf [OF this] same show ?thesis by simp
    qed
  qed
qed

lemma convert_documents_convert_failure:
  assumes "convert_documents env form nf w = (r, w')"
  shows "convert_failures (trace w') = convert_failures (trace w) \<or>
         (\<exists>e. convert_failures (trace w') = convert_failures (trace w) @ [(pdfFormat form, e)] \<and>
              r = Some (convert_PDF_error (pdfFormat form) e) \<and> pdfFormat form \<noteq> '''' \<and>
              add_calls (trace w') = add_calls (trace w))"
proof -
  let ?opts = "\<lparr>Landscape = landscape form, PageRanges = Textual (nativePageRanges form),
                 PDFformat = nf\<rparr>"
  let ?ins = "inputPaths form"
  obtain res w1 where ce: "convert_each env ?opts ?ins 0 (replicate (length ?ins) '''') w = (res, w1)"
    by (cases "convert_each env ?opts ?ins 0 (replicate (length ?ins) '''') w")
  note other = convert_each_other_calls [OF ce]
  show ?thesis
  proof (cases res)
    case (Inl err)
    with assms ce have "w' = w1" by (simp add: convert_documents_def)
    with other show ?thesis by simp
  next
    case (Inr outs)
    show ?thesis
    proof (cases "length outs > 1 \<and> merge form")
      case True
      with assms ce Inr have "merge_branch env (pdfFormat form) outs w1 = (r, w')"
        by (simp add: convert_documents_def)
      from merge_branch_convert_failure [OF this] other show ?thesis by simp
    next
      case False
      with assms ce Inr have "no_merge_branch env (pdfFormat form) outs w1 = (r, w')"
        by (auto simp: convert_documents_def)
      from no_merge_branch_convert_failure [OF this] other show ?thesis by simp
    qed
  qed
qed

lemma convert_documents_no_merge:
  assumes "convert_documents env form nf w = (None, w')"
    and "\<not> merge form \<or> length (inputPaths form) \<le> 1"
  shows "\<exists>outs. length outs = length (inputPaths form) \<and>
           pdf_calls (trace w') = pdf_calls (trace w) @ zip (inputPaths form) outs \<and>
           merge_calls (trace w') = merge_calls (trace w) \<and>
           (if pdfFormat form = ''''
            then convert_calls (trace w') = convert_calls (trace w) \<and>
                 add_calls (trace w') = add_calls (trace w) @ [outs]
            else \<exists>outs2. length outs2 = length outs \<and>
                   convert_calls (trace w') = convert_calls (trace w) @ zip outs outs2 \<and>
                   add_calls (trace w') = add_calls (trace w) @ [outs2])"
proof -
  let ?opts = "\<lparr>Landscape = landscape form, PageRanges = Textual (nativePageRanges form),
                 PDFformat = nf\<rparr>"
  let ?ins = "inputPaths form"
  obtain res w1 where ce: "convert_each env ?opts ?ins 0 (replicate (length ?ins) '''') w = (res, w1)"
    by (cases "convert_each env ?opts ?ins 0 (replicate (length ?ins) '''') w")
  note other = convert_each_other_calls [OF ce]
  show ?thesis
  proof (cases res)
    case (Inl err)
    with assms ce show ?thesis by (simp add: convert_documents_def)
  next
    case (Inr outs)
    from convert_each_ok [OF ce [unfolded Inr]] have len: "length outs = length ?ins" by simp
    from convert_each_paths [OF ce [unfolded Inr]]
    have calls: "pdf_calls (trace w1) = pdf_calls (trace w) @ zip ?ins outs" by simp
    from assms ce Inr len have nm: "no_merge_branch env (pdfFormat form) outs w1 = (None, w')"
      by (auto simp: convert_documents_def)
    from no_merge_branch_pdf [OF nm] no_merge_branch_done [OF nm] calls other len
    show ?thesis by (intro exI [of _ outs]) (auto split: if_splits)
  qed
qed

lemma convert_documents_single:
  assumes "convert_documents env form nf w = (r, w')"
    and "length (inputPaths form) \<le> 1"
  shows "merge_calls (trace w') = merge_calls (trace w)"
proof -
  let ?opts = "\<lparr>Landscape = landscape form, PageRanges = Textual (nativePageRanges form),
                 PDFformat = nf\<rparr>"
  let ?ins = "inputPaths form"
  obtain res w1 where ce: "convert_each env ?opts ?ins 0 (replicate (length ?ins) '''') w = (res, w1)"
    by (cases "convert_each env ?opts ?ins 0 (replicate (length ?ins) '''') w")
  note other = convert_each_other_calls [OF ce]
  show ?thesis
  proof (cases res)
    case (Inl err)
    with assms ce other show ?thesis by (simp add: convert_documents_def)
  next
    case (Inr outs)
    from convert_each_ok [OF ce [unfolded Inr]] have len: "length outs = length ?ins" by simp
    from assms ce Inr len have nm: "no_merge_branch env (pdfFormat form) outs w1 = (r, w')"
      by (auto simp: convert_documents_def)
    from no_merge_branch_pdf [OF nm] other show ?thesis by simp
  qed
qed

text \<open>What the handler has done before the conversion starts.\<close>

lemma convertRoute_cases:
  assumes "convertRoute env (Inr form) w = (r, w')" and "trace w = []"
  shows "(r \<noteq> None \<and> (trace w' = [] \<or> trace w' = [EvWarn deprecated_warning])) \<or>
         (\<exists>nf w1. convert_documents env form nf w1 = (r, w') \<and>
                  (trace w1 = [] \<or> trace w1 = [EvWarn deprecated_warning]))"
proof (cases "2 \<le> format_options_set form")
  case True
  with assms show ?thesis
    by (auto simp: convertRoute_def Let_def format_options_set_def split: if_splits)
next
  case False
  let ?w1 = "if nativePdfA1aFormat form then emit (EvWarn deprecated_warning) w else w"
  let ?nf = "if nativePdfA1aFormat form then FormatPDFA1a env else nativePdfFormat form"
  from False assms(1) have "convert_documents env form ?nf ?w1 = (r, w')"
    by (auto simp: convertRoute_def Let_def format_options_set_def split: if_splits)
  moreover from assms(2) have "trace ?w1 = [] \<or> trace ?w1 = [EvWarn deprecated_warning]"
    by simp
  ultimately show ?thesis by blast
qed

lemma digits_small: "n < 10 \<Longrightarrow> digits n = [''0123456789'' ! n]"
  by (simp add: digits.simps)

lemmas example_defs =
  example_env_def example_world_def example_form_def convertRoute_def convert_documents_def
  no_merge_branch_def merge_branch_def add_output_paths_def emit_def Let_def digits_small
  convert_PDF_error_def malformed_page_ranges_error_def StatusBadRequest_def

lemma b_fails_run:
  "convertRoute env_b_fails (Inr example_form) example_world =
     (Some (Errorf ''convert to PDF'' (errors_New ''boom'')),
      example_world\<lparr>trace :=
        [EvGeneratePath ''.pdf'' ''/tmp/0.pdf'',
         EvPDF ''a.docx'' ''/tmp/0.pdf''
           \<lparr>Landscape = False, PageRanges = Textual '''', PDFformat = ''''\<rparr> None,
         EvGeneratePath ''.pdf'' ''/tmp/2.pdf'',
         EvPDF ''b.docx'' ''/tmp/2.pdf''
           \<lparr>Landscape = False, PageRanges = Textual '''', PDFformat = ''''\<rparr>
           (Some (errors_New ''boom''))]\<rparr>)"
  by (simp add: env_b_fails_def example_defs)

lemma format_not_available_run:
  "convertRoute env_format_not_available (Inr (example_form\<lparr>pdfFormat := ''PDF/A-1b''\<rparr>))
     example_world =
     (Some (WrapError (Errorf ''convert PDF'' ErrPDFFormatNotAvailable)
        (NewSentinelHTTPError 400
           (''At least one PDF engine does not handle the PDF format '' @ [CHR 0x27] @
            ''PDF/A-1b'' @ [CHR 0x27] @
            '' (pdfFormat), while other have failed to convert for other reasons''))),
      example_world\<lparr>trace :=
        [EvGeneratePath ''.pdf'' ''/tmp/0.pdf'',
         EvPDF ''a.docx'' ''/tmp/0.pdf''
           \<lparr>Landscape = False, PageRanges = Textual '''', PDFformat = ''''\<rparr> None,
         EvGeneratePath ''.pdf'' ''/tmp/2.pdf'',
         EvPDF ''b.docx'' ''/tmp/2.pdf''
           \<lparr>Landscape = False, PageRanges = Textual '''', PDFformat = ''''\<rparr> None,
         EvGeneratePath ''.pdf'' ''/tmp/4.pdf'',
         EvConvert ''PDF/A-1b'' ''/tmp/0.pdf'' ''/tmp/4.pdf'' (Some ErrPDFFormatNotAvailable)]\<rparr>)"
  by (simp add: env_format_not_available_def example_defs)

lemma single_document_run:
  "convertRoute example_env (Inr (example_form\<lparr>inputPaths := [''a.docx''], merge := True\<rparr>))
     example_world =
     (None,
      example_world\<lparr>trace :=
        [EvGeneratePath ''.pdf'' ''/tmp/0.pdf'',
         EvPDF ''a.docx'' ''/tmp/0.pdf''
           \<lparr>Landscape = False, PageRanges = Textual '''', PDFformat = ''''\<rparr> None,
         EvAddOutputPaths [''/tmp/0.pdf''] None]\<rparr>)"
  by (simp add: example_defs)

lemma reformat_each_run:
  "convertRoute example_env (Inr (example_form\<lparr>pdfFormat := ''PDF/A-1b''\<rparr>)) example_world =
     (None,
      example_world\<lparr>trace :=
        [EvGeneratePath ''.pdf'' ''/tmp/0.pdf'',
         EvPDF ''a.docx'' ''/tmp/0.pdf''
           \<lparr>Landscape = False, PageRanges = Textual '''', PDFformat = ''''\<rparr> None,
         EvGeneratePath ''.pdf'' ''/tmp/2.pdf'',
         EvPDF ''b.docx'' ''/tmp/2.pdf''
           \<lparr>Landscape = False, PageRanges = Textual '''', PDFformat = ''''\<rparr> None,
         EvGeneratePath ''.pdf'' ''/tmp/4.pdf'',
         EvConvert ''PDF/A-1b'' ''/tmp/0.pdf'' ''/tmp/4.pdf'' None,
         EvGeneratePath ''.pdf'' ''/tmp/6.pdf'',
         EvConvert ''PDF/A-1b'' ''/tmp/2.pdf'' ''/tmp/6.pdf'' None,
         EvAddOutputPaths [''/tmp/4.pdf'', ''/tmp/6.pdf''] None]\<rparr>)"
  by (simp add: example_defs)

lemma trace_example_world [simp]: "trace (example_world\<lparr>trace := ys\<rparr>) = ys"
  "trace example_world = []"
  by (simp_all add: example_world_def)

lemma command_events_calls:
  assumes "command_events bin args options r xs"
  shows "createPNG_calls xs = [] \<and> generated_paths xs = [] \<and> merge_calls xs = [] \<and>
         convert_calls xs = [] \<and> add_calls xs = [] \<and> pdf_calls xs = []"
  using assms by cases simp_all

lemma createPNG_events_calls:
  assumes "createPNG_events env inputPath outputPath options r ys"
  shows "createPNG_calls ys = [(inputPath, outputPath, options)] \<and> generated_paths ys = [] \<and>
         merge_calls ys = [] \<and> convert_calls ys = [] \<and> add_calls ys = [] \<and> pdf_calls ys = []"
  using assms
proof cases
  case (private_stopped port xs)
  from command_events_calls [OF private_stopped(3)] show ?thesis
    unfolding private_stopped(1) by simp
next
  case (private_stop_failed port xs e)
  from command_events_calls [OF private_stop_failed(3)] show ?thesis
    unfolding private_stop_failed(1) by simp
next
  case (locked port xs)
  from command_events_calls [OF locked(3)] show ?thesis
    unfolding locked(1) by simp
qed simp_all

lemma createPNG_calls_run:
  assumes "createPNG env inputPath outputPath options w = (r, w')"
  shows "createPNG_calls (trace w') = createPNG_calls (trace w) @ [(inputPath, outputPath, options)] \<and>
         generated_paths (trace w') = generated_paths (trace w) \<and>
         merge_calls (trace w') = merge_calls (trace w) \<and>
         convert_calls (trace w') = convert_calls (trace w) \<and>
         add_calls (trace w') = add_calls (trace w) \<and>
         pdf_calls (trace w') = pdf_calls (trace w) \<and>
         pkg_nativePDFformat w' = pkg_nativePDFformat w"
proof -
  from createPNG_run [OF assms] obtain ys where
    ys: "createPNG_events env inputPath outputPath options r ys"
    and w': "w' = w\<lparr>trace := trace w @ ys\<rparr>"
    by blast
  from createPNG_events_calls [OF ys] w' show ?thesis by simp
qed

lemma thumbnail_each_calls:
  "thumbnail_each env l ins i outs w = (res, w') \<Longrightarrow>
   i + length ins \<le> length outs \<Longrightarrow>
   \<exists>ps. length ps \<le> length ins \<and>
     createPNG_calls (trace w') = createPNG_calls (trace w) @
       map (\<lambda>(a, b). (a, b, \<lparr>Landscape = l, PageRanges = PageIndex 1,
                             PDFformat = pkg_nativePDFformat w\<rparr>)) (zip ins ps) \<and>
     generated_paths (trace w') = generated_paths (trace w) @ map (\<lambda>b. (''.png'', b)) ps \<and>
     merge_calls (trace w') = merge_calls (trace w) \<and>
     convert_calls (trace w') = convert_calls (trace w) \<and>
     add_calls (trace w') = add_calls (trace w) \<and>
     pdf_calls (trace w') = pdf_calls (trace w) \<and>
     (\<forall>outs'. res = Inr outs' \<longrightarrow>
        ps = take (length ins) (drop i outs') \<and> length outs' = length outs \<and>
        take i outs' = take i outs)"
proof (induction ins arbitrary: i outs w)
  case Nil
  then show ?case by auto
next
  case (Cons x rest)
  let ?p = "ctx_GeneratePath env (trace w) ''.png''"
  let ?w1 = "emit (EvGeneratePath ''.png'' ?p) w"
  let ?outs1 = "outs[i := ?p]"
  let ?opts = "\<lparr>Landscape = l, PageRanges = PageIndex 1, PDFformat = pkg_nativePDFformat w\<rparr>"
  from Cons.prems(2) have i: "i < length outs" by simp
  then have at: "?outs1 ! i = ?p" by simp
  obtain r1 w2 where run: "createPNG env x ?p ?opts ?w1 = (r1, w2)"
    by (cases "createPNG env x ?p ?opts ?w1")
  note c = createPNG_calls_run [OF run]
  show ?case
  proof (cases r1)
    case (Some e)
    with Cons.prems(1) at run have "w' = w2" and "\<forall>outs'. res \<noteq> Inr outs'"
      by (auto simp: Let_def split: if_splits)
    with c show ?thesis by (intro exI [of _ "[?p]"]) simp
  next
    case None
    with Cons.prems(1) at run have rec: "thumbnail_each env l rest (Suc i) ?outs1 w2 = (res, w')"
      by (simp add: Let_def)
    from Cons.prems(2) have "Suc i + length rest \<le> length ?outs1" by simp
    from Cons.IH [OF rec this] obtain ps where
      ps: "length ps \<le> length rest"
      "createPNG_calls (trace w') = createPNG_calls (trace w2) @
         map (\<lambda>(a, b). (a, b, \<lparr>Landscape = l, PageRanges = PageIndex 1,
                               PDFformat = pkg_nativePDFformat w2\<rparr>)) (zip rest ps)"
      "generated_paths (trace w') = generated_paths (trace w2) @ map (\<lambda>b. (''.png'', b)) ps"
      "merge_calls (trace w') = merge_calls (trace w2)"
      "convert_calls (trace w') = convert_calls (trace w2)"
      "add_calls (trace w') = add_calls (trace w2)"
      "pdf_calls (trace w') = pdf_calls (trace w2)"
      and final: "\<forall>outs'. res = Inr outs' \<longrightarrow>
        ps = take (length rest) (drop (Suc i) outs') \<and> length outs' = length ?outs1 \<and>
        take (Suc i) outs' = take (Suc i) ?outs1"
      by blast
    have "(?p # ps) = take (length (x # rest)) (drop i outs') \<and> length outs' = length outs \<and>
          take i outs' = take i outs" if "res = Inr outs'" for outs'
    proof -
      from final that have a: "ps = take (length rest) (drop (Suc i) outs')"
        and len: "length outs' = length outs"
        and tk: "take (Suc i) outs' = take (Suc i) ?outs1" by simp_all
      from tk have "take (Suc i) outs' ! i = take (Suc i) ?outs1 ! i" by simp
      with at have nth: "outs' ! i = ?p" by simp
      from tk have "take i (take (Suc i) outs') = take i (take (Suc i) ?outs1)" by simp
      then have t: "take i outs' = take i outs" by (simp add: min_def)
      from i len have "drop i outs' = outs' ! i # drop (Suc i) outs'"
        by (simp add: Cons_nth_drop_Suc)
      with nth a len t show ?thesis by simp
    qed
    with ps c show ?thesis by (intro exI [of _ "?p # ps"]) simp
  qed
qed

lemma generateThumnailRoute_cases:
  assumes "generateThumnailRoute env (Inr form) w = (r, w')" and "trace w = []"
  shows "(r \<noteq> None \<and> (trace w' = [] \<or> trace w' = [EvWarn deprecated_warning])) \<or>
         (\<exists>w2 res w3.
            (trace w2 = [] \<or> trace w2 = [EvWarn deprecated_warning]) \<and>
            thumbnail_each env (landscape form) (inputPaths form) 0
              (replicate (length (inputPaths form)) '''') w2 = (res, w3) \<and>
            (case res of
               Inl err \<Rightarrow> r = Some err \<and> w' = w3
             | Inr outputPaths \<Rightarrow>
                 add_output_paths env ''add output paths'' outputPaths w3 = (r, w')))"
proof (cases "(pkg_nativePDFA1aFormat w \<and> pkg_nativePDFformat w \<noteq> '''') \<or>
              (pkg_nativePDFA1aFormat w \<and> pkg_PDFformat w \<noteq> '''') \<or>
              (pkg_nativePDFformat w \<noteq> '''' \<and> pkg_PDFformat w \<noteq> '''')")
  case True
  with assms show ?thesis
    by (auto simp: generateThumnailRoute_def Let_def split: if_splits)
next
  case False
  let ?w1 = "if pkg_nativePDFA1aFormat w then emit (EvWarn deprecated_warning) w else w"
  let ?w2 = "if pkg_nativePDFA1aFormat ?w1
             then ?w1\<lparr>pkg_nativePDFformat := FormatPDFA1a env\<rparr> else ?w1"
  obtain res w3 where te:
    "thumbnail_each env (landscape form) (inputPaths form) 0
       (replicate (length (inputPaths form)) '''') ?w2 = (res, w3)"
    by (cases "thumbnail_each env (landscape form) (inputPaths form) 0
                 (replicate (length (inputPaths form)) '''') ?w2")
  from assms(2) have tr: "trace ?w2 = [] \<or> trace ?w2 = [EvWarn deprecated_warning]" by simp
  from False assms(1) te have
    "case res of Inl err \<Rightarrow> r = Some err \<and> w' = w3
     | Inr outputPaths \<Rightarrow> add_output_paths env ''add output paths'' outputPaths w3 = (r, w')"
    by (cases res) (auto simp: generateThumnailRoute_def Let_def split: if_splits)
  with tr te show ?thesis by blast
qed


lemma convertRoute_pdf_failure:
  assumes "convertRoute env (Inr form) w = (r, w')"
    and "trace w = []"
    and "e \<in> set (pdf_failures (trace w'))"
  shows "r = Some (if errors_Is e ErrMalformedPageRanges
                   then WrapError (Errorf ''convert to PDF'' e)
                          (NewSentinelHTTPError 400
                             (''Malformed page ranges '' @ [CHR 0x27] @ nativePageRanges form @
                              [CHR 0x27] @ '' (nativePageRanges)''))
                   else Errorf ''convert to PDF'' e) \<and>
         pdf_failures (trace w') = [e] \<and>
         (\<exists>inputPath outputPath options.
            last (trace w') = EvPDF inputPath outputPath options (Some e)) \<and>
         merge_calls (trace w') = [] \<and>
         convert_calls (trace w') = [] \<and>
         add_calls (trace w') = []"
proof -
  from convertRoute_cases [OF assms(1,2)] consider
    (early) "trace w' = [] \<or> trace w' = [EvWarn deprecated_warning]"
    | (conv) nf w1 where "convert_documents env form nf w1 = (r, w')"
        "trace w1 = [] \<or> trace w1 = [EvWarn deprecated_warning]"
    by blast
  then show ?thesis
  proof cases
    case early
    with assms(3) show ?thesis by auto
  next
    case conv
    from conv(2) have z: "pdf_failures (trace w1) = []" "merge_calls (trace w1) = []"
      "convert_calls (trace w1) = []" "add_calls (trace w1) = []" by auto
    from convert_documents_pdf_failure [OF conv(1)] z consider
      (same) "pdf_failures (trace w') = []"
      | (failed) e' inputPath outputPath options where "pdf_failures (trace w') = [e']"
          "r = Some (route_error ''convert to PDF''
                       \<lparr>Landscape = landscape form, PageRanges = Textual (nativePageRanges form),
                        PDFformat = nf\<rparr> e')"
          "merge_calls (trace w') = []" "convert_calls (trace w') = []"
          "add_calls (trace w') = []"
          "last (trace w') = EvPDF inputPath outputPath options (Some e')"
      by auto
    then show ?thesis
    proof cases
      case same
      with assms(3) show ?thesis by simp
    next
      case failed
      from assms(3) failed(1) have "e = e'" by simp
      with failed show ?thesis
        by (simp add: route_error_def malformed_page_ranges_error_def StatusBadRequest_def)
    qed
  qed
qed

lemma thumbnail_run:
  "generateThumnailRoute example_env (Inr example_form) example_world =
     (None,
      example_world\<lparr>trace :=
        [EvGeneratePath ''.png'' ''/tmp/0.png'',
         EvCreatePNG ''a.docx'' ''/tmp/0.png'' example_options,
         EvLock None,
         EvPort ModListener 2002,
         EvCommandContext ''unoconv''
           [''--no-launch'', ''--format'', ''png'', ''--port'', ''2002'',
            ''--output'', ''/tmp/0.png'', ''a.docx''] None,
         EvLogDebug example_options,
         EvExec ''unoconv''
           [''--no-launch'', ''--format'', ''png'', ''--port'', ''2002'',
            ''--output'', ''/tmp/0.png'', ''a.docx''] 0 None,
         EvGoUnlock,
         EvGeneratePath ''.png'' ''/tmp/8.png'',
         EvCreatePNG ''b.docx'' ''/tmp/8.png'' example_options,
         EvLock None,
         EvPort ModListener 2002,
         EvCommandContext ''unoconv''
           [''--no-launch'', ''--format'', ''png'', ''--port'', ''2002'',
            ''--output'', ''/tmp/8.png'', ''b.docx''] None,
         EvLogDebug example_options,
         EvExec ''unoconv''
           [''--no-launch'', ''--format'', ''png'', ''--port'', ''2002'',
            ''--output'', ''/tmp/8.png'', ''b.docx''] 0 None,
         EvGoUnlock,
         EvAddOutputPaths [''/tmp/0.png'', ''/tmp/8.png''] None]\<rparr>)"
  by (simp add: generateThumnailRoute_def createPNG_def createPNG_exec_def example_options_def
        Sprintf_d_def digits_2002 example_defs)



section \<open>Properties of the handlers\<close>

text \<open>
  C1. A request that sets two or more of \<^verbatim>\<open>nativePdfA1aFormat\<close>, \<^verbatim>\<open>nativePdfFormat\<close>
  and \<^verbatim>\<open>pdfFormat\<close> is answered with the status 400 error that names the first
  conflicting pair, and the handler has done nothing else than log the deprecation
  warning: no path was generated and no document was converted.
\<close>

theorem convertRoute_conflicting_formats:
  assumes "2 \<le> format_options_set form"
  shows "convertRoute env (Inr form) w =
     (Some (if nativePdfA1aFormat form \<and> nativePdfFormat form \<noteq> ''''
            then both_provided ''nativePdfFormat'' ''nativePdfA1aFormat''
            else if nativePdfA1aFormat form \<and> pdfFormat form \<noteq> ''''
            then both_provided ''pdfFormat'' ''nativePdfA1aFormat''
            else both_provided ''pdfFormat'' ''nativePdfFormat''),
      if nativePdfA1aFormat form then emit (EvWarn deprecated_warning) w else w)"
  using assms
  by (simp add: convertRoute_def format_options_set_def both_provided_def StatusBadRequest_def
           split: if_splits)

theorem convertRoute_conflicting_formats_witness:
  "2 \<le> format_options_set (example_form\<lparr>nativePdfA1aFormat := True, pdfFormat := ''PDF/A-1b''\<rparr>) \<and>
   convertRoute example_env
     (Inr (example_form\<lparr>nativePdfA1aFormat := True, pdfFormat := ''PDF/A-1b''\<rparr>)) example_world =
     (Some (both_provided ''pdfFormat'' ''nativePdfA1aFormat''),
      emit (EvWarn deprecated_warning) example_world)"
  using convertRoute_conflicting_formats
    [of "example_form\<lparr>nativePdfA1aFormat := True, pdfFormat := ''PDF/A-1b''\<rparr>"
        example_env example_world]
  by (simp add: format_options_set_def example_form_def)

text \<open>
  C2. With the long-running listener (restart threshold other than 0), the events of
  every \<^verbatim>\<open>createPNG\<close> call keep the order of lock and port: the port is read only
  after \<^verbatim>\<open>lock\<close> has returned \<^verbatim>\<open>nil\<close> and before the lock is released, and the command
  is built and run with \<^verbatim>\<open>--port\<close> followed by the port read there.
\<close>

theorem createPNG_port_read_after_lock:
  assumes "libreOfficeRestartThreshold env \<noteq> 0"
  shows "port_read_under_lock False None
           (events_since w (snd (createPNG env inputPath outputPath options w)))"
proof -
  obtain r w' where run: "createPNG env inputPath outputPath options w = (r, w')"
    by (cases "createPNG env inputPath outputPath options w")
  from createPNG_run [OF run] obtain ys where
    ys: "createPNG_events env inputPath outputPath options r ys"
    and w': "w' = w\<lparr>trace := trace w @ ys\<rparr>"
    by blast
  from ys assms have "port_read_under_lock False None ys"
  proof cases
    case (locked port xs)
    from locked(3) show ?thesis unfolding locked(1)
      by cases (simp_all add: command_args_def png_args_def)
  qed simp_all
  with run w' show ?thesis by simp
qed

theorem createPNG_port_read_after_lock_witness:
  "libreOfficeRestartThreshold example_env \<noteq> 0 \<and>
   port_read_under_lock False None
     (events_since example_world
        (snd (createPNG example_env ''a.docx'' ''/tmp/a.png'' example_options example_world)))"
  using createPNG_port_read_after_lock
    [of example_env example_world "''a.docx''" "''/tmp/a.png''" example_options]
  by (simp add: example_env_def)



text \<open>
  C10. With an empty page selection, a runner error with exit code 5 comes back as the
  wrapped error \<^verbatim>\<open>unoconv PNG: ...\<close>; and whenever \<^verbatim>\<open>createPNG\<close> returns
  \<^verbatim>\<open>ErrMalformedPageRanges\<close>, the page selection was not empty.
\<close>

theorem createPNG_empty_page_ranges:
  assumes "createPNG env inputPath outputPath options w = (r, w')"
  shows "(PageRanges options = Textual '''' \<longrightarrow>
            EvExec bin args 5 (Some e) \<in> set (events_since w w') \<longrightarrow>
            r = Some (Errorf ''unoconv PNG'' e)) \<and>
         (r = Some ErrMalformedPageRanges \<longrightarrow> PageRanges options \<noteq> Textual '''')"
proof -
  from createPNG_run [OF assms] obtain ys where
    ys: "createPNG_events env inputPath outputPath options r ys"
    and w': "w' = w\<lparr>trace := trace w @ ys\<rparr>"
    by blast
  from createPNG_events_err [OF ys, of bin args 5 e] createPNG_events_malformed [of env inputPath outputPath options ys] ys w'
  show ?thesis by auto
qed

theorem createPNG_empty_page_ranges_witness:
  "createPNG env_exit5 ''a.docx'' ''/tmp/a.png'' (example_options\<lparr>PageRanges := Textual ''''\<rparr>)
     example_world =
     (Some (Errorf ''unoconv PNG'' (errors_New ''exit status 5'')),
      snd (createPNG env_exit5 ''a.docx'' ''/tmp/a.png''
             (example_options\<lparr>PageRanges := Textual ''''\<rparr>) example_world)) \<and>
   PageRanges (example_options\<lparr>PageRanges := Textual ''''\<rparr>) = Textual '''' \<and>
   EvExec ''unoconv''
     [''--no-launch'', ''--format'', ''png'', ''--port'', ''2002'',
      ''--output'', ''/tmp/a.png'', ''a.docx''] 5 (Some (errors_New ''exit status 5''))
     \<in> set (events_since example_world
               (snd (createPNG env_exit5 ''a.docx'' ''/tmp/a.png''
                       (example_options\<lparr>PageRanges := Textual ''''\<rparr>) example_world)))"
  using createPNG_empty_page_ranges
    [of env_exit5 "''a.docx''" "''/tmp/a.png''" "example_options\<lparr>PageRanges := Textual ''''\<rparr>"
        example_world "Some (Errorf ''unoconv PNG'' (errors_New ''exit status 5''))"
        "snd (createPNG env_exit5 ''a.docx'' ''/tmp/a.png''
               (example_options\<lparr>PageRanges := Textual ''''\<rparr>) example_world)"]
  by (simp add: createPNG_exit5_run)

text \<open>
  C3. When a conversion of a request has failed with \<^verbatim>\<open>e\<close>, the handler returns that
  error wrapped (as the status 400 error for malformed page ranges, or as
  \<^verbatim>\<open>convert to PDF: e\<close>), the failed call is the only failure and the last thing the
  handler did, and nothing was merged, reformatted or added to the context.
\<close>

theorem convertRoute_first_failure_aborts:
  assumes "convertRoute env (Inr form) w = (r, w')"
    and "trace w = []"
    and "e \<in> set (pdf_failures (trace w'))"
  shows "r = Some (if errors_Is e ErrMalformedPageRanges
                   then WrapError (Errorf ''convert to PDF'' e)
                          (NewSentinelHTTPError 400
                             (''Malformed page ranges '' @ [CHR 0x27] @ nativePageRanges form @
                              [CHR 0x27] @ '' (nativePageRanges)''))
                   else Errorf ''convert to PDF'' e) \<and>
         pdf_failures (trace w') = [e] \<and>
         (\<exists>inputPath outputPath options.
            last (trace w') = EvPDF inputPath outputPath options (Some e)) \<and>
         merge_calls (trace w') = [] \<and>
         convert_calls (trace w') = [] \<and>
         add_calls (trace w') = []"
  using convertRoute_pdf_failure [OF assms] .

theorem convertRoute_first_failure_aborts_witness:
  "trace example_world = [] \<and>
   errors_New ''boom'' \<in>
     set (pdf_failures (trace (snd (convertRoute env_b_fails (Inr example_form) example_world)))) \<and>
   fst (convertRoute env_b_fails (Inr example_form) example_world) =
     Some (Errorf ''convert to PDF'' (errors_New ''boom'')) \<and>
   add_calls (trace (snd (convertRoute env_b_fails (Inr example_form) example_world))) = []"
  using convertRoute_first_failure_aborts
    [of env_b_fails example_form example_world
        "fst (convertRoute env_b_fails (Inr example_form) example_world)"
        "snd (convertRoute env_b_fails (Inr example_form) example_world)"
        "errors_New ''boom''"]
  by (simp add: b_fails_run)

text \<open>
  C6. When a call of \<^verbatim>\<open>engine.Convert\<close> has failed with \<^verbatim>\<open>e\<close>, the format asked for was
  the form's \<^verbatim>\<open>pdfFormat\<close>, and the handler returns the status 400 error naming that
  format if \<^verbatim>\<open>e\<close> is \<^verbatim>\<open>ErrPDFFormatNotAvailable\<close>, and \<^verbatim>\<open>convert PDF: e\<close> otherwise;
  no path was added to the context.
\<close>

theorem convertRoute_format_not_available:
  assumes "convertRoute env (Inr form) w = (r, w')"
    and "trace w = []"
    and "(f, e) \<in> set (convert_failures (trace w'))"
  shows "f = pdfFormat form \<and> pdfFormat form \<noteq> '''' \<and>
         r = Some (if errors_Is e ErrPDFFormatNotAvailable
                   then WrapError (Errorf ''convert PDF'' e)
                          (NewSentinelHTTPError 400
                             (''At least one PDF engine does not handle the PDF format '' @
                              [CHR 0x27] @ pdfFormat form @ [CHR 0x27] @
                              '' (pdfFormat), while other have failed to convert for other reasons''))
                   else Errorf ''convert PDF'' e) \<and>
         add_calls (trace w') = []"
proof -
  from convertRoute_cases [OF assms(1,2)] consider
    (early) "trace w' = [] \<or> trace w' = [EvWarn deprecated_warning]"
    | (conv) nf w1 where "convert_documents env form nf w1 = (r, w')"
        "trace w1 = [] \<or> trace w1 = [EvWarn deprecated_warning]"
    by blast
  then show ?thesis
  proof cases
    case early
    with assms(3) show ?thesis by auto
  next
    case conv
    from conv(2) have z: "convert_failures (trace w1) = []" "add_calls (trace w1) = []" by auto
    from convert_documents_convert_failure [OF conv(1)] z consider
      (same) "convert_failures (trace w') = []"
      | (failed) e' where "convert_failures (trace w') = [(pdfFormat form, e')]"
          "r = Some (convert_PDF_error (pdfFormat form) e')" "pdfFormat form \<noteq> ''''"
          "add_calls (trace w') = []"
      by auto
    then show ?thesis
    proof cases
      case same
      with assms(3) show ?thesis by simp
    next
      case failed
      from assms(3) failed(1) have "f = pdfFormat form" "e = e'" by simp_all
      with failed show ?thesis by (simp add: convert_PDF_error_def StatusBadRequest_def)
    qed
  qed
qed

theorem convertRoute_format_not_available_witness:
  "trace example_world = [] \<and>
   (''PDF/A-1b'', ErrPDFFormatNotAvailable) \<in>
     set (convert_failures (trace (snd (convertRoute env_format_not_available
            (Inr (example_form\<lparr>pdfFormat := ''PDF/A-1b''\<rparr>)) example_world)))) \<and>
   fst (convertRoute env_format_not_available
          (Inr (example_form\<lparr>pdfFormat := ''PDF/A-1b''\<rparr>)) example_world) =
     Some (WrapError (Errorf ''convert PDF'' ErrPDFFormatNotAvailable)
        (NewSentinelHTTPError 400
           (''At least one PDF engine does not handle the PDF format '' @ [CHR 0x27] @
            ''PDF/A-1b'' @ [CHR 0x27] @
            '' (pdfFormat), while other have failed to convert for other reasons'')))"
  using convertRoute_format_not_available
    [of env_format_not_available "example_form\<lparr>pdfFormat := ''PDF/A-1b''\<rparr>" example_world
        "fst (convertRoute env_format_not_available
                (Inr (example_form\<lparr>pdfFormat := ''PDF/A-1b''\<rparr>)) example_world)"
        "snd (convertRoute env_format_not_available
                (Inr (example_form\<lparr>pdfFormat := ''PDF/A-1b''\<rparr>)) example_world)"
        "''PDF/A-1b''" ErrPDFFormatNotAvailable]
  by (simp add: format_not_available_run)

text \<open>
  C7. With exactly one input document, \<^verbatim>\<open>engine.Merge\<close> is never called, whatever the
  merge flag. When the handler returns \<^verbatim>\<open>nil\<close>, the document was converted by one
  \<^verbatim>\<open>unoAPI.PDF\<close> call, and the handler has added output paths once, and exactly one
  path: the output path of that conversion, or (with a \<^verbatim>\<open>pdfFormat\<close>) the output path of
  the one \<^verbatim>\<open>engine.Convert\<close> call, whose input is the output of that conversion.
\<close>

theorem convertRoute_single_document:
  assumes "convertRoute env (Inr form) w = (r, w')"
    and "trace w = []"
    and "length (inputPaths form) = 1"
  shows "merge_calls (trace w') = [] \<and>
         (r = None \<longrightarrow>
            (\<exists>p. add_calls (trace w') = [[p]]) \<and>
            map fst (pdf_calls (trace w')) = inputPaths form \<and>
            (if pdfFormat form = ''''
             then add_calls (trace w') = [map snd (pdf_calls (trace w'))]
             else map fst (convert_calls (trace w')) = map snd (pdf_calls (trace w')) \<and>
                  add_calls (trace w') = [map snd (convert_calls (trace w'))]))"
proof -
  from convertRoute_cases [OF assms(1,2)] consider
    (early) "r \<noteq> None" "trace w' = [] \<or> trace w' = [EvWarn deprecated_warning]"
    | (conv) nf w1 where "convert_documents env form nf w1 = (r, w')"
        "trace w1 = [] \<or> trace w1 = [EvWarn deprecated_warning]"
    by blast
  then show ?thesis
  proof cases
    case early
    then show ?thesis by auto
  next
    case conv
    from conv(2) have z: "merge_calls (trace w1) = []" "add_calls (trace w1) = []"
      "pdf_calls (trace w1) = []" "convert_calls (trace w1) = []" by auto
    from assms(3) have le: "length (inputPaths form) \<le> 1" by simp
    from convert_documents_single [OF conv(1) le] z have m: "merge_calls (trace w') = []" by simp
    have "(\<exists>p. add_calls (trace w') = [[p]]) \<and>
          map fst (pdf_calls (trace w')) = inputPaths form \<and>
          (if pdfFormat form = ''''
           then add_calls (trace w') = [map snd (pdf_calls (trace w'))]
           else map fst (convert_calls (trace w')) = map snd (pdf_calls (trace w')) \<and>
                add_calls (trace w') = [map snd (convert_calls (trace w'))])" if "r = None"
    proof -
      from conv(1) that have run: "convert_documents env form nf w1 = (None, w')" by simp
      from convert_documents_no_merge [OF run] le obtain outs where
        len: "length outs = length (inputPaths form)" and
        calls: "pdf_calls (trace w') = pdf_calls (trace w1) @ zip (inputPaths form) outs" and
        rest: "if pdfFormat form = ''''
               then convert_calls (trace w') = convert_calls (trace w1) \<and>
                    add_calls (trace w') = add_calls (trace w1) @ [outs]
               else \<exists>outs2. length outs2 = length outs \<and>
                      convert_calls (trace w') = convert_calls (trace w1) @ zip outs outs2 \<and>
                      add_calls (trace w') = add_calls (trace w1) @ [outs2]"
        by blast
      from calls z len have p: "map fst (pdf_calls (trace w')) = inputPaths form"
        "map snd (pdf_calls (trace w')) = outs" by simp_all
      from len assms(3) obtain q where q: "outs = [q]"
        by (cases outs) auto
      show ?thesis
      proof (cases "pdfFormat form = ''''")
        case True
        with rest z p q show ?thesis by simp
      next
        case False
        with rest obtain outs2 where o2: "length outs2 = length outs"
          "convert_calls (trace w') = convert_calls (trace w1) @ zip outs outs2"
          "add_calls (trace w') = add_calls (trace w1) @ [outs2]" by auto
        from o2(1) q obtain q2 where "outs2 = [q2]" by (cases outs2) auto
        with o2 z p q False show ?thesis by simp
      qed
    qed
    with m show ?thesis by simp
  qed
qed

theorem convertRoute_single_document_witness:
  "trace example_world = [] \<and>
   length (inputPaths (example_form\<lparr>inputPaths := [''a.docx''], merge := True\<rparr>)) = 1 \<and>
   merge (example_form\<lparr>inputPaths := [''a.docx''], merge := True\<rparr>) \<and>
   fst (convertRoute example_env
          (Inr (example_form\<lparr>inputPaths := [''a.docx''], merge := True\<rparr>)) example_world) = None \<and>
   merge_calls (trace (snd (convertRoute example_env
          (Inr (example_form\<lparr>inputPaths := [''a.docx''], merge := True\<rparr>)) example_world))) = [] \<and>
   pdf_calls (trace (snd (convertRoute example_env
          (Inr (example_form\<lparr>inputPaths := [''a.docx''], merge := True\<rparr>)) example_world))) =
     [(''a.docx'', ''/tmp/0.pdf'')] \<and>
   add_calls (trace (snd (convertRoute example_env
          (Inr (example_form\<lparr>inputPaths := [''a.docx''], merge := True\<rparr>)) example_world))) =
     [[''/tmp/0.pdf'']]"
  using convertRoute_single_document
    [of example_env "example_form\<lparr>inputPaths := [''a.docx''], merge := True\<rparr>" example_world
        "fst (convertRoute example_env
                (Inr (example_form\<lparr>inputPaths := [''a.docx''], merge := True\<rparr>)) example_world)"
        "snd (convertRoute example_env
                (Inr (example_form\<lparr>inputPaths := [''a.docx''], merge := True\<rparr>)) example_world)"]
  by (simp add: single_document_run)

text \<open>
  C8. With \<^verbatim>\<open>merge\<close> false, a request that the handler answers with \<^verbatim>\<open>nil\<close> has
  converted the input documents in their order, has added as many paths as there are
  input documents, in one call, and the i-th path added is the output of the i-th
  conversion, or (with a \<^verbatim>\<open>pdfFormat\<close>) the reformatted output of the i-th conversion.
\<close>

theorem convertRoute_no_merge_outputs:
  assumes "convertRoute env (Inr form) w = (None, w')"
    and "trace w = []"
    and "\<not> merge form"
  shows "map fst (pdf_calls (trace w')) = inputPaths form \<and>
         length (concat (add_calls (trace w'))) = length (inputPaths form) \<and>
         (if pdfFormat form = ''''
          then add_calls (trace w') = [map snd (pdf_calls (trace w'))]
          else map fst (convert_calls (trace w')) = map snd (pdf_calls (trace w')) \<and>
               add_calls (trace w') = [map snd (convert_calls (trace w'))])"
proof -
  from convertRoute_cases [OF assms(1,2)] obtain nf w1 where
    run: "convert_documents env form nf w1 = (None, w')" and
    w1: "trace w1 = [] \<or> trace w1 = [EvWarn deprecated_warning]"
    by blast
  from w1 have z: "pdf_calls (trace w1) = []" "convert_calls (trace w1) = []"
    "add_calls (trace w1) = []" by auto
  from convert_documents_no_merge [OF run] assms(3) obtain outs where
    len: "length outs = length (inputPaths form)" and
    calls: "pdf_calls (trace w') = pdf_calls (trace w1) @ zip (inputPaths form) outs" and
    rest: "if pdfFormat form = ''''
           then convert_calls (trace w') = convert_calls (trace w1) \<and>
                add_calls (trace w') = add_calls (trace w1) @ [outs]
           else \<exists>outs2. length outs2 = length outs \<and>
                  convert_calls (trace w') = convert_calls (trace w1) @ zip outs outs2 \<and>
                  add_calls (trace w') = add_calls (trace w1) @ [outs2]"
    by blast
  from calls z len have p: "map fst (pdf_calls (trace w')) = inputPaths form"
    "map snd (pdf_calls (trace w')) = outs" by simp_all
  show ?thesis
  proof (cases "pdfFormat form = ''''")
    case True
    with rest z p len show ?thesis by simp
  next
    case False
    with rest obtain outs2 where "length outs2 = length outs"
      "convert_calls (trace w') = convert_calls (trace w1) @ zip outs outs2"
      "add_calls (trace w') = add_calls (trace w1) @ [outs2]" by auto
    with z p len False show ?thesis by simp
  qed
qed

theorem convertRoute_no_merge_outputs_witness:
  "convertRoute example_env (Inr (example_form\<lparr>pdfFormat := ''PDF/A-1b''\<rparr>)) example_world =
     (None, snd (convertRoute example_env (Inr (example_form\<lparr>pdfFormat := ''PDF/A-1b''\<rparr>))
                   example_world)) \<and>
   trace example_world = [] \<and>
   \<not> merge (example_form\<lparr>pdfFormat := ''PDF/A-1b''\<rparr>) \<and>
   map fst (pdf_calls (trace (snd (convertRoute example_env
      (Inr (example_form\<lparr>pdfFormat := ''PDF/A-1b''\<rparr>)) example_world)))) =
     [''a.docx'', ''b.docx''] \<and>
   add_calls (trace (snd (convertRoute example_env
      (Inr (example_form\<lparr>pdfFormat := ''PDF/A-1b''\<rparr>)) example_world))) =
     [[''/tmp/4.pdf'', ''/tmp/6.pdf'']]"
  using convertRoute_no_merge_outputs
    [of example_env "example_form\<lparr>pdfFormat := ''PDF/A-1b''\<rparr>" example_world
        "snd (convertRoute example_env (Inr (example_form\<lparr>pdfFormat := ''PDF/A-1b''\<rparr>))
                example_world)"]
  by (simp add: reformat_each_run) (simp add: example_form_def)

text \<open>
  C9. In every run of the thumbnail handler, each \<^verbatim>\<open>createPNG\<close> call is given the page
  selection \<^verbatim>\<open>1\<close>, every path generated has the extension \<^verbatim>\<open>.png\<close>, the output paths
  of the calls are the generated paths, in order, for the input documents in order, and
  there is no \<^verbatim>\<open>unoAPI.PDF\<close>, \<^verbatim>\<open>engine.Merge\<close> or \<^verbatim>\<open>engine.Convert\<close> call; when the
  handler returns \<^verbatim>\<open>nil\<close>, there was one call per input document, and their output
  paths were added to the context in one call.
\<close>

theorem generateThumnailRoute_pipeline:
  assumes "generateThumnailRoute env (Inr form) w = (r, w')" and "trace w = []"
  shows "(\<forall>c \<in> set (createPNG_calls (trace w')). PageRanges (snd (snd c)) = PageIndex 1) \<and>
         (\<forall>g \<in> set (generated_paths (trace w')). fst g = ''.png'') \<and>
         map (fst \<circ> snd) (createPNG_calls (trace w')) = map snd (generated_paths (trace w')) \<and>
         map fst (createPNG_calls (trace w')) =
           take (length (createPNG_calls (trace w'))) (inputPaths form) \<and>
         merge_calls (trace w') = [] \<and> convert_calls (trace w') = [] \<and>
         pdf_calls (trace w') = [] \<and>
         (r = None \<longrightarrow>
            length (createPNG_calls (trace w')) = length (inputPaths form) \<and>
            add_calls (trace w') = [map (fst \<circ> snd) (createPNG_calls (trace w'))])"
proof -
  let ?ins = "inputPaths form"
  from generateThumnailRoute_cases [OF assms] consider
    (early) "r \<noteq> None" "trace w' = [] \<or> trace w' = [EvWarn deprecated_warning]"
    | (run) w2 res w3 where "trace w2 = [] \<or> trace w2 = [EvWarn deprecated_warning]"
        "thumbnail_each env (landscape form) ?ins 0 (replicate (length ?ins) '''') w2 = (res, w3)"
        "case res of Inl err \<Rightarrow> r = Some err \<and> w' = w3
         | Inr outputPaths \<Rightarrow> add_output_paths env ''add output paths'' outputPaths w3 = (r, w')"
    by blast
  then show ?thesis
  proof cases
    case early
    then show ?thesis by auto
  next
    case run
    let ?opts = "\<lparr>Landscape = landscape form, PageRanges = PageIndex 1,
                   PDFformat = pkg_nativePDFformat w2\<rparr>"
    from run(1) have z: "createPNG_calls (trace w2) = []" "generated_paths (trace w2) = []"
      "merge_calls (trace w2) = []" "convert_calls (trace w2) = []" "add_calls (trace w2) = []"
      "pdf_calls (trace w2) = []" by auto
    from thumbnail_each_calls [OF run(2)] z obtain ps where
      len: "length ps \<le> length ?ins" and
      calls: "createPNG_calls (trace w3) = map (\<lambda>(a, b). (a, b, ?opts)) (zip ?ins ps)" and
      gen: "generated_paths (trace w3) = map (\<lambda>b. (''.png'', b)) ps" and
      none: "merge_calls (trace w3) = []" "convert_calls (trace w3) = []"
        "add_calls (trace w3) = []" "pdf_calls (trace w3) = []" and
      final: "\<forall>outs'. res = Inr outs' \<longrightarrow>
        ps = take (length ?ins) (drop 0 outs') \<and> length outs' = length (replicate (length ?ins) '''')"
      by auto
    from calls len have c1: "map (fst \<circ> snd) (createPNG_calls (trace w3)) = ps"
      by (simp add: comp_def case_prod_unfold map_snd_zip_take)
    from calls len have c2: "map fst (createPNG_calls (trace w3)) = take (length ps) ?ins"
      by (simp add: comp_def case_prod_unfold map_fst_zip_take min_def)
    from calls len have c3: "length (createPNG_calls (trace w3)) = length ps" by simp
    from calls have c4: "\<forall>c \<in> set (createPNG_calls (trace w3)). PageRanges (snd (snd c)) = PageIndex 1"
      by auto
    from gen have g1: "\<forall>g \<in> set (generated_paths (trace w3)). fst g = ''.png''" by auto
    from gen have g2: "map snd (generated_paths (trace w3)) = ps" by (simp add: comp_def)
    show ?thesis
    proof (cases res)
      case (Inl err)
      with run(3) have "r = Some err" "w' = w3" by simp_all
      with c1 c2 c3 c4 g1 g2 none show ?thesis by simp
    next
      case (Inr outs)
      with run(3) have add: "add_output_paths env ''add output paths'' outs w3 = (r, w')" by simp
      from final Inr have "ps = outs" "length outs = length ?ins" by simp_all
      with add_output_paths_calls [OF add] c1 c2 c3 c4 g1 g2 none show ?thesis by simp
    qed
  qed
qed

theorem generateThumnailRoute_pipeline_witness:
  "trace example_world = [] \<and>
   fst (generateThumnailRoute example_env (Inr example_form) example_world) = None \<and>
   createPNG_calls (trace (snd (generateThumnailRoute example_env (Inr example_form)
                                  example_world))) =
     [(''a.docx'', ''/tmp/0.png'', example_options), (''b.docx'', ''/tmp/8.png'', example_options)] \<and>
   generated_paths (trace (snd (generateThumnailRoute example_env (Inr example_form)
                                  example_world))) =
     [(''.png'', ''/tmp/0.png''), (''.png'', ''/tmp/8.png'')] \<and>
   add_calls (trace (snd (generateThumnailRoute example_env (Inr example_form) example_world))) =
     [[''/tmp/0.png'', ''/tmp/8.png'']]"
  using generateThumnailRoute_pipeline
    [of example_env example_form example_world
        "fst (generateThumnailRoute example_env (Inr example_form) example_world)"
        "snd (generateThumnailRoute example_env (Inr example_form) example_world)"]
  by (simp add: thumbnail_run)




end
